theory Spec2Isabelle
  imports
    Complex_Main
    "HOL-Library.Multiset"
    "HOL-Library.Char_ord"
    "HOL-Library.List_Lexorder"
    "HOL-Library.Product_Lexorder"
begin

section \<open>Finance ETL: validation and currency normalisation\<close>

text \<open>
  A shallow embedding of \<^verbatim>\<open>finance_etl/transform.py\<close>, \<^verbatim>\<open>finance_etl/quality.py\<close> and
  \<^verbatim>\<open>finance_etl/pipeline.py\<close>. A data frame is a list of rows in index order; the
  float columns hold exact rationals, and a missing float (NaN) is \<open>None\<close>. Exceptions
  are values of the type \<open>error\<close>.
\<close>

subsection \<open>Calendar days and timestamps\<close>

text \<open>
  A calendar day is (year, month, day); a timestamp is a calendar day with a time of day
  (in seconds). Both are ordered lexicographically, which is the chronological order.
\<close>

type_synonym day = "nat \<times> nat \<times> nat"
type_synonym timestamp = "day \<times> nat"

definition dt_date :: "timestamp \<Rightarrow> day" where
  \<comment> \<open>\<^verbatim>\<open>.dt.date\<close>: the time of day is discarded\<close>
  "dt_date t = fst t"

definition is_leap :: "nat \<Rightarrow> bool" where
  "is_leap y = (y mod 4 = 0 \<and> (y mod 400 = 0 \<or> y mod 100 \<noteq> 0))"

definition days_in_month :: "nat \<Rightarrow> nat \<Rightarrow> nat" where
  "days_in_month y m =
     (if m = 2 then (if is_leap y then 29 else 28)
      else if m = 4 \<or> m = 6 \<or> m = 9 \<or> m = 11 then 30 else 31)"

definition is_digit :: "char \<Rightarrow> bool" where
  "is_digit c = (48 \<le> (of_char c :: nat) \<and> (of_char c :: nat) \<le> 57)"

definition digit_val :: "char \<Rightarrow> nat" where
  "digit_val c = of_char c - 48"

definition parse_nat :: "string \<Rightarrow> nat option" where
  "parse_nat s =
     (if s \<noteq> [] \<and> list_all is_digit s
      then Some (foldl (\<lambda>n c. 10 * n + digit_val c) 0 s) else None)"

datatype error =
    FileNotFoundError string
  | ConfigValueError
  | DQFailed string
  | NoneTypeError
  | NoneAttributeError
  | DateParseError string
  | MissingFxRates "(day \<times> string) list"
  | IndexingError

definition to_datetime :: "string \<Rightarrow> error + timestamp" where
  \<comment> \<open>\<^verbatim>\<open>pd.to_datetime\<close> on an ISO day \<^verbatim>\<open>YYYY-MM-DD\<close>; any other text is a parse error
      here (pandas reads further spellings, which are outside this model)\<close>
  "to_datetime s =
     (if length s = 10 \<and> s ! 4 = CHR ''-'' \<and> s ! 7 = CHR ''-'' then
        (case (parse_nat (take 4 s), parse_nat (take 2 (drop 5 s)), parse_nat (drop 8 s)) of
           (Some y, Some m, Some d) \<Rightarrow>
             if 1 \<le> m \<and> m \<le> 12 \<and> 1 \<le> d \<and> d \<le> days_in_month y m
             then Inr ((y, m, d), 0) else Inl (DateParseError s)
         | _ \<Rightarrow> Inl (DateParseError s))
      else Inl (DateParseError s))"

definition month_end :: "timestamp \<Rightarrow> timestamp" where
  \<comment> \<open>\<^verbatim>\<open>+ pd.offsets.MonthEnd(0)\<close>: roll forward to the last day of the month, keeping
      the time of day; a timestamp already on the last day stays\<close>
  "month_end t = (case t of ((y, m, d), s) \<Rightarrow> ((y, m, days_in_month y m), s))"

definition month_begin :: "timestamp \<Rightarrow> timestamp" where
  \<comment> \<open>\<^verbatim>\<open>+ pd.offsets.MonthBegin(1)\<close>: the first day of the next month\<close>
  "month_begin t =
     (case t of ((y, m, d), s) \<Rightarrow> if m = 12 then ((y + 1, 1, 1), s) else ((y, m + 1, 1), s))"

definition digit_char :: "nat \<Rightarrow> char" where
  "digit_char n = char_of (48 + n mod 10)"

definition pad2 :: "nat \<Rightarrow> string" where
  "pad2 n = [digit_char (n div 10), digit_char n]"

definition pad4 :: "nat \<Rightarrow> string" where
  "pad4 n = [digit_char (n div 1000), digit_char (n div 100), digit_char (n div 10), digit_char n]"

definition period_str :: "timestamp \<Rightarrow> string" where
  \<comment> \<open>\<^verbatim>\<open>.dt.to_period("M").astype(str)\<close>\<close>
  "period_str t = (case t of ((y, m, d), s) \<Rightarrow> pad4 y @ ''-'' @ pad2 m)"

subsection \<open>Rounding to two decimals\<close>

definition rint :: "rat \<Rightarrow> int" where
  \<comment> \<open>round to the nearest integer, ties to the even one\<close>
  "rint x =
     (let f = \<lfloor>x\<rfloor>; d = x - of_int f
      in if d < 1 / 2 then f else if 1 / 2 < d then f + 1 else if even f then f else f + 1)"

definition round2 :: "rat \<Rightarrow> rat" where
  \<comment> \<open>\<^verbatim>\<open>.round(2)\<close>\<close>
  "round2 x = of_int (rint (x * 100)) / 100"

subsection \<open>The ledger and the FX table\<close>

record txn =
  date :: timestamp
  entity :: string
  source :: string
  document_id :: string
  account_code :: string
  currency :: string
  amount :: rat
  description :: "string option"

record ledger = txn +
  rate :: rat
  amount_base :: rat

record fact = ledger +
  txn_id :: string

record fx_row =
  fx_date :: timestamp
  from_currency :: string
  to_currency :: string
  fx_rate :: rat

definition fx_to_base :: "fx_row list \<Rightarrow> string \<Rightarrow> fx_row list" where
  "fx_to_base fx_rates base_currency =
     filter (\<lambda>f. to_currency f = base_currency)
       (map (\<lambda>f. f\<lparr>fx_date := (dt_date (fx_date f), 0)\<rparr>) fx_rates)"

fun drop_duplicates :: "'a list \<Rightarrow> 'a list" where
  \<comment> \<open>keeps the first occurrence of every row\<close>
  "drop_duplicates [] = []"
| "drop_duplicates (x # xs) = x # drop_duplicates (filter (\<lambda>y. y \<noteq> x) xs)"

definition merge_left :: "('a \<Rightarrow> 'k) \<Rightarrow> ('b \<Rightarrow> 'k) \<Rightarrow> 'a list \<Rightarrow> 'b list \<Rightarrow> ('a \<times> 'b option) list" where
  \<comment> \<open>\<^verbatim>\<open>left.merge(right, how="left")\<close>: every left row, in order, once per matching
      right row, and once with nulls when no right row matches\<close>
  "merge_left kl kr left right =
     concat (map (\<lambda>a. case filter (\<lambda>b. kr b = kl a) right of
                         [] \<Rightarrow> [(a, None)]
                       | bs \<Rightarrow> map (\<lambda>b. (a, Some b)) bs) left)"

definition date_key :: "'a txn_scheme \<Rightarrow> day" where
  "date_key r = dt_date (date r)"

definition fx_key :: "fx_row \<Rightarrow> day \<times> string" where
  \<comment> \<open>the right-hand merge key of \<^verbatim>\<open>fx_lookup\<close>: (date, from_currency)\<close>
  "fx_key f = (dt_date (fx_date f), from_currency f)"

definition with_rate :: "txn \<Rightarrow> rat \<Rightarrow> ledger" where
  \<comment> \<open>the row with its \<^verbatim>\<open>rate\<close> and \<^verbatim>\<open>amount_base = (amount * rate).round(2)\<close>\<close>
  "with_rate r x = txn.extend r (ledger.fields x (round2 (amount r * x)))"

definition amount_base_or_raise :: "(txn \<times> rat option) list \<Rightarrow> error + ledger list" where
  \<comment> \<open>the part of \<^verbatim>\<open>add_fx_amount_base\<close> after the merge: a missing rate raises with
      the distinct (date_key, currency) pairs that lack one\<close>
  "amount_base_or_raise out =
     (if \<exists>p \<in> set out. snd p = None then
        Inl (MissingFxRates
              (drop_duplicates
                 (map (\<lambda>p. (date_key (fst p), currency (fst p)))
                    (filter (\<lambda>p. snd p = None) out))))
      else Inr (map (\<lambda>p. with_rate (fst p) (the (snd p))) out))"

definition add_fx_amount_base :: "txn list \<Rightarrow> fx_row list \<Rightarrow> string \<Rightarrow> error + ledger list" where
  "add_fx_amount_base df fx base_currency =
     (let mask = map (\<lambda>r. currency r \<noteq> base_currency) df in
      if \<exists>m \<in> set mask. m then
        (let merged = merge_left (\<lambda>r. (date_key r, currency r)) fx_key df fx in
         \<comment> \<open>\<^verbatim>\<open>out.loc[mask, ...]\<close>: the mask was taken before the merge and is indexed
             0..n-1; a merged frame with more rows cannot be aligned with it\<close>
         if length merged \<noteq> length mask then Inl IndexingError
         else amount_base_or_raise
                (map (\<lambda>(p, m). (fst p, if m then map_option fx_rate (snd p) else Some 1))
                   (zip merged mask)))
      else amount_base_or_raise (map (\<lambda>r. (r, Some 1)) df))"


subsection \<open>Validated source rows\<close>

text \<open>
  The rows of the four validated source frames, with the columns of their schemas. A
  nullable text column is an option.
\<close>

record sale =
  s_date :: timestamp
  s_entity :: string
  invoice_id :: string
  s_account_code :: string
  s_currency :: string
  s_amount :: rat
  s_description :: "string option"

record expense =
  e_date :: timestamp
  e_entity :: string
  bill_id :: string
  e_account_code :: string
  e_currency :: string
  e_amount :: rat
  e_description :: "string option"

record payroll =
  month :: string
  p_entity :: string
  employee_id :: string
  p_currency :: string
  gross :: rat
  deductions :: rat
  net :: rat

record inventory =
  i_date :: timestamp
  i_entity :: string
  sku :: string
  movement_type :: string
  qty :: rat
  unit_cost :: rat
  i_currency :: string

subsection \<open>Ledger unification\<close>

fun collect :: "('e + 'a) list \<Rightarrow> 'e + 'a list" where
  \<comment> \<open>a vectorised operation raises as soon as one element does\<close>
  "collect [] = Inr []"
| "collect (x # xs) =
     (case x of
        Inl e \<Rightarrow> Inl e
      | Inr v \<Rightarrow> (case collect xs of Inl e \<Rightarrow> Inl e | Inr vs \<Rightarrow> Inr (v # vs)))"

definition iso_day :: "timestamp \<Rightarrow> string" where
  "iso_day t = (case t of ((y, m, d), s) \<Rightarrow> pad4 y @ ''-'' @ pad2 m @ ''-'' @ pad2 d)"

definition iso_day_time :: "timestamp \<Rightarrow> string" where
  "iso_day_time t =
     iso_day t @ '' '' @ pad2 (snd t div 3600) @ '':'' @ pad2 (snd t div 60 mod 60) @ '':'' @
     pad2 (snd t mod 60)"

definition astype_str :: "timestamp list \<Rightarrow> string list" where
  \<comment> \<open>\<^verbatim>\<open>.astype(str)\<close> on a datetime column: days only when no value has a time of day\<close>
  "astype_str ts = (if list_all (\<lambda>t. snd t = 0) ts then map iso_day ts else map iso_day_time ts)"

definition sales_txn :: "sale \<Rightarrow> txn" where
  "sales_txn s =
     \<lparr>date = s_date s, entity = s_entity s, source = ''sales'', document_id = invoice_id s,
      account_code = s_account_code s, currency = s_currency s, amount = s_amount s,
      description = s_description s\<rparr>"

definition expenses_txn :: "expense \<Rightarrow> txn" where
  "expenses_txn e =
     \<lparr>date = e_date e, entity = e_entity e, source = ''expenses'', document_id = bill_id e,
      account_code = e_account_code e, currency = e_currency e, amount = - e_amount e,
      description = e_description e\<rparr>"

definition payroll_txn :: "payroll \<Rightarrow> error + txn" where
  "payroll_txn p =
     (case to_datetime (month p @ ''-01'') of
        Inl e \<Rightarrow> Inl e
      | Inr t \<Rightarrow>
          Inr \<lparr>date = month_end t, entity = p_entity p, source = ''payroll'',
               document_id = employee_id p @ ''_'' @ month p, account_code = ''61000001'',
               currency = p_currency p, amount = - net p,
               description = Some ''Payroll net''\<rparr>)"

definition inventory_account :: "string \<Rightarrow> string" where
  \<comment> \<open>\<^verbatim>\<open>.map({...})\<close> and the later \<^verbatim>\<open>.astype(str)\<close>: an unmapped movement type gives
      NaN and then the text \<^verbatim>\<open>nan\<close>\<close>
  "inventory_account mt =
     (if mt = ''issue'' then ''50000001''
      else if mt = ''receipt'' then ''10000001''
      else if mt = ''adjustment'' then ''10000001''
      else ''nan'')"

definition inventory_txn :: "inventory \<Rightarrow> string \<Rightarrow> txn" where
  \<comment> \<open>the second argument is the row's date as text\<close>
  "inventory_txn i d =
     \<lparr>date = i_date i, entity = i_entity i, source = ''inventory'',
      document_id = sku i @ ''_'' @ d, account_code = inventory_account (movement_type i),
      currency = i_currency i,
      amount = (if movement_type i = ''issue'' then - round2 (qty i * unit_cost i)
                else round2 (qty i * unit_cost i)),
      description = Some (movement_type i @ '' '' @ sku i)\<rparr>"

definition sort_cols :: "'a txn_scheme \<Rightarrow> timestamp \<times> string \<times> string \<times> string" where
  "sort_cols r = (date r, entity r, source r, document_id r)"

definition with_txn_id :: "ledger \<Rightarrow> fact" where
  "with_txn_id r =
     ledger.extend r (fact.fields (entity r @ ''|'' @ source r @ ''|'' @ document_id r))"

definition to_fact_transactions ::
  "sale list \<Rightarrow> expense list \<Rightarrow> payroll list \<Rightarrow> inventory list \<Rightarrow> fx_row list \<Rightarrow> string
     \<Rightarrow> error + fact list" where
  "to_fact_transactions sales expenses payroll inventory fx base_currency =
     (let s = map sales_txn sales;
          e = map expenses_txn expenses
      in case collect (map payroll_txn payroll) of
           Inl err \<Rightarrow> Inl err
         | Inr p \<Rightarrow>
             (let inv = map (\<lambda>(i, d). inventory_txn i d)
                          (zip inventory (astype_str (map i_date inventory)))
              in case add_fx_amount_base (s @ e @ p @ inv) fx base_currency of
                   Inl err \<Rightarrow> Inl err
                 | Inr fct \<Rightarrow> Inr (map with_txn_id (sort_key sort_cols fct))))"

subsection \<open>Monthly KPIs\<close>

record account =
  acc_code :: string
  acc_name :: "string option"
  acc_type :: "string option"

record coa_row =
  coa_code :: "string option"
  coa_name :: "string option"
  coa_type :: "string option"

definition build_dim_accounts :: "coa_row list \<Rightarrow> account list" where
  \<comment> \<open>\<^verbatim>\<open>.astype(str)\<close> on the codes: an empty code (NaN) becomes the text \<^verbatim>\<open>nan\<close>\<close>
  "build_dim_accounts chart_of_accounts =
     map (\<lambda>c. \<lparr>acc_code = (case coa_code c of None \<Rightarrow> ''nan'' | Some s \<Rightarrow> s),
                acc_name = coa_name c, acc_type = coa_type c\<rparr>) chart_of_accounts"

record kpi_row =
  k_entity :: string
  k_month :: string
  k_columns :: "(string \<times> rat) list"
  gross_profit :: rat
  operating_profit :: rat

definition nan_last :: "string option \<Rightarrow> bool \<times> string" where
  \<comment> \<open>group keys are sorted with the null key last\<close>
  "nan_last t = (case t of None \<Rightarrow> (True, []) | Some s \<Rightarrow> (False, s))"

definition group_keys :: "('k \<Rightarrow> 'o::linorder) \<Rightarrow> 'k list \<Rightarrow> 'k list" where
  \<comment> \<open>the distinct keys in sorted order\<close>
  "group_keys ord ks = sort_key ord (drop_duplicates ks)"

definition groupby_sum ::
  "(string \<times> string \<times> string option \<times> rat) list \<Rightarrow> ((string \<times> string \<times> string option) \<times> rat) list" where
  \<comment> \<open>\<^verbatim>\<open>groupby([entity, month, account_type], dropna=False)[amount_base].sum()\<close>\<close>
  "groupby_sum df =
     map (\<lambda>k. (k, sum_list (map (\<lambda>(e, m, t, v). v)
                                (filter (\<lambda>(e, m, t, v). (e, m, t) = k) df))))
       (group_keys (\<lambda>(e, m, t). (e, m, nan_last t)) (map (\<lambda>(e, m, t, v). (e, m, t)) df))"

definition mean :: "rat list \<Rightarrow> rat" where
  "mean xs = sum_list xs / of_nat (length xs)"

definition column_or_zero :: "(string \<times> rat) list \<Rightarrow> string \<Rightarrow> rat" where
  \<comment> \<open>a column of the wide table; an absent one of Revenue, COGS, Expense is added as 0.0\<close>
  "column_or_zero cols c = (case map_of cols c of None \<Rightarrow> 0 | Some v \<Rightarrow> v)"

fun dropna :: "((string \<times> string \<times> string option) \<times> rat) list \<Rightarrow> ((string \<times> string) \<times> string \<times> rat) list" where
  \<comment> \<open>the grouping inside \<^verbatim>\<open>pivot_table\<close> leaves out every row with a null key\<close>
  "dropna [] = []"
| "dropna (((e, m, None), v) # rows) = dropna rows"
| "dropna (((e, m, Some c), v) # rows) = ((e, m), c, v) # dropna rows"

definition pivot_table ::
  "((string \<times> string \<times> string option) \<times> rat) list \<Rightarrow> ((string \<times> string) \<times> (string \<times> rat) list) list" where
  \<comment> \<open>\<^verbatim>\<open>pivot_table(index=[entity, month], columns=account_type, values=amount_base,
      fill_value=0)\<close>: rows with a null key are dropped, the remaining ones are averaged
      per (entity, month, account_type) and spread over one column per account type\<close>
  "pivot_table pivot =
     (let kept = dropna pivot;
          index = group_keys id (map fst kept);
          columns = group_keys id (map (\<lambda>(k, c, v). c) kept)
      in map (\<lambda>k. (k, map (\<lambda>c. (c, case filter (\<lambda>(k', c', v). k' = k \<and> c' = c) kept of
                                         [] \<Rightarrow> 0
                                       | vs \<Rightarrow> mean (map (\<lambda>(k', c', v). v) vs))) columns)) index)"

definition typed :: "string \<times> string \<times> string option \<times> rat \<Rightarrow> bool" where
  \<comment> \<open>a joined row with an account type; used to state what \<open>kpi_monthly\<close> ignores\<close>
  "typed x = (case x of (e, m, t, v) \<Rightarrow> t \<noteq> None)"

definition kpi_monthly :: "fact list \<Rightarrow> account list \<Rightarrow> kpi_row list" where
  "kpi_monthly fct dim_accounts =
     (let df = map (\<lambda>(r, a). (entity r, period_str (date r),
                               (case a of None \<Rightarrow> None | Some d \<Rightarrow> acc_type d), amount_base r))
                 (merge_left account_code acc_code fct dim_accounts);
          pivot = groupby_sum df;
          wide = map (\<lambda>((e, m), cols).
                        (e, m, cols @ map (\<lambda>c. (c, 0))
                                        (filter (\<lambda>c. c \<notin> set (map fst cols))
                                           [''Revenue'', ''COGS'', ''Expense''])))
                   (pivot_table pivot)
      in sort_key (\<lambda>r. (k_entity r, k_month r))
           (map (\<lambda>(e, m, cols).
                   (let gp = round2 (column_or_zero cols ''Revenue'' + column_or_zero cols ''COGS'')
                    in \<lparr>k_entity = e, k_month = m, k_columns = cols, gross_profit = gp,
                        operating_profit = round2 (gp + column_or_zero cols ''Expense'')\<rparr>))
              wide))"

subsection \<open>Raw frames and schemas\<close>

text \<open>
  A raw frame is what \<^verbatim>\<open>read_csv\<close> returns: named columns and rows of cells. A cell is
  null (an empty field), a number, a timestamp (a parsed date), a truth value or any
  other text. A schema is data, as in \<^verbatim>\<open>quality.py\<close>: per column a dtype, the element
  checks, \<^verbatim>\<open>coerce\<close> and \<^verbatim>\<open>nullable\<close>, and the whole-table checks.
\<close>

datatype cell = Null | Str string | Num rat | Time timestamp | Bool bool

record frame =
  fcols :: "string list"
  frows :: "cell list list"

datatype dtype = DateTime | Text | Float

datatype check = IsIn "string list" | GreaterThan int | GreaterThanOrEqualTo int | NotEqualTo int

record column =
  dtype :: dtype
  checks :: "check list"
  coerce :: bool
  nullable :: bool

record table_check =
  check_fn :: "frame \<Rightarrow> string + bool"
  error_text :: string

record schema =
  schema_columns :: "(string \<times> column) list"
  schema_checks :: "table_check list"
  strict :: bool

definition row_get :: "string list \<Rightarrow> cell list \<Rightarrow> string \<Rightarrow> cell" where
  \<comment> \<open>the cell of a row under a column name; a row that ends early has nulls there\<close>
  "row_get cols r c = (case map_of (zip cols r) c of None \<Rightarrow> Null | Some v \<Rightarrow> v)"

definition column_cells :: "frame \<Rightarrow> string \<Rightarrow> cell list" where
  "column_cells df c = map (\<lambda>r. row_get (fcols df) r c) (frows df)"

fun series_max :: "'a::linorder list \<Rightarrow> 'a option" where
  \<comment> \<open>\<^verbatim>\<open>.max()\<close>: the maximum of an empty series is NaN\<close>
  "series_max [] = None"
| "series_max (x # xs) = Some (fold max xs x)"

definition groupby_size :: "frame \<Rightarrow> string list \<Rightarrow> string + nat list" where
  \<comment> \<open>\<^verbatim>\<open>df.groupby(keys).size()\<close>: rows with a null key are left out; a key that is no
      column raises. The groups stand in order of first appearance; the code only takes
      their maximum.\<close>
  "groupby_size df keys =
     (if list_all (\<lambda>k. k \<in> set (fcols df)) keys then
        (let ks = filter (list_all (\<lambda>c. c \<noteq> Null))
                    (map (\<lambda>r. map (row_get (fcols df) r) keys) (frows df))
         in Inr (map (\<lambda>k. length (filter (\<lambda>x. x = k) ks)) (drop_duplicates ks)))
      else Inl ''KeyError'')"

definition quote :: "string \<Rightarrow> string" where
  "quote s = [CHR 0x27] @ s @ [CHR 0x27]"

fun join :: "string \<Rightarrow> string list \<Rightarrow> string" where
  "join sep [] = []"
| "join sep [x] = x"
| "join sep (x # y # ys) = x @ sep @ join sep (y # ys)"

definition repr_list :: "string list \<Rightarrow> string" where
  \<comment> \<open>Python's text of a list of strings\<close>
  "repr_list xs = ''['' @ join '', '' (map quote xs) @ '']''"

definition dup_check :: "string list \<Rightarrow> string \<Rightarrow> table_check" where
  "dup_check keys label =
     \<lparr>check_fn = (\<lambda>df. case groupby_size df keys of
                           Inl e \<Rightarrow> Inl e
                         | Inr sizes \<Rightarrow> Inr (series_max sizes = Some 1)),
      error_text = ''Duplicates found for keys '' @ repr_list keys @ '' in '' @ label\<rparr>"

fun float_cell :: "cell \<Rightarrow> string + rat option" where
  \<comment> \<open>a cell as an operand of float arithmetic: a null is NaN, text raises\<close>
  "float_cell (Num x) = Inr (Some x)"
| "float_cell Null = Inr None"
| "float_cell c = Inl ''TypeError''"

definition identity_gap :: "cell \<Rightarrow> cell \<Rightarrow> cell \<Rightarrow> string + rat option" where
  \<comment> \<open>\<^verbatim>\<open>(gross - deductions - net).abs()\<close> of one row\<close>
  "identity_gap g d n =
     (case (float_cell g, float_cell d, float_cell n) of
        (Inr (Some a), Inr (Some b), Inr (Some c)) \<Rightarrow> Inr (Some \<bar>a - b - c\<bar>)
      | (Inr _, Inr _, Inr _) \<Rightarrow> Inr None
      | _ \<Rightarrow> Inl ''TypeError'')"

definition payroll_identity :: table_check where
  "payroll_identity =
     \<lparr>check_fn = (\<lambda>df.
        if list_all (\<lambda>k. k \<in> set (fcols df)) [''gross'', ''deductions'', ''net''] then
          (case collect (map (\<lambda>r. identity_gap (row_get (fcols df) r ''gross'')
                                     (row_get (fcols df) r ''deductions'')
                                     (row_get (fcols df) r ''net'')) (frows df)) of
             Inl e \<Rightarrow> Inl e
           | Inr gaps \<Rightarrow>
               \<comment> \<open>the maximum skips NaN; NaN \<open><\<close> 0.01 is false\<close>
               Inr (case series_max (concat (map (\<lambda>g. case g of None \<Rightarrow> [] | Some x \<Rightarrow> [x]) gaps)) of
                      None \<Rightarrow> False
                    | Some m \<Rightarrow> m < 1 / 100))
        else Inl ''KeyError''),
      error_text = ''Payroll identity gross - deductions = net violated''\<rparr>"

definition sales_schema :: "string list \<Rightarrow> schema" where
  "sales_schema allowed_currencies =
     \<lparr>schema_columns =
        [(''date'', \<lparr>dtype = DateTime, checks = [], coerce = True, nullable = False\<rparr>),
         (''entity'', \<lparr>dtype = Text, checks = [], coerce = False, nullable = False\<rparr>),
         (''invoice_id'', \<lparr>dtype = Text, checks = [], coerce = False, nullable = False\<rparr>),
         (''account_code'', \<lparr>dtype = Text, checks = [], coerce = False, nullable = False\<rparr>),
         (''currency'', \<lparr>dtype = Text, checks = [IsIn allowed_currencies], coerce = False,
                          nullable = False\<rparr>),
         (''amount'', \<lparr>dtype = Float, checks = [GreaterThan 0], coerce = True, nullable = False\<rparr>),
         (''description'', \<lparr>dtype = Text, checks = [], coerce = False, nullable = True\<rparr>)],
      schema_checks = [dup_check [''entity'', ''invoice_id''] ''sales''],
      strict = True\<rparr>"

definition expenses_schema :: "string list \<Rightarrow> schema" where
  "expenses_schema allowed_currencies =
     \<lparr>schema_columns =
        [(''date'', \<lparr>dtype = DateTime, checks = [], coerce = True, nullable = False\<rparr>),
         (''entity'', \<lparr>dtype = Text, checks = [], coerce = False, nullable = False\<rparr>),
         (''bill_id'', \<lparr>dtype = Text, checks = [], coerce = False, nullable = False\<rparr>),
         (''account_code'', \<lparr>dtype = Text, checks = [], coerce = False, nullable = False\<rparr>),
         (''currency'', \<lparr>dtype = Text, checks = [IsIn allowed_currencies], coerce = False,
                          nullable = False\<rparr>),
         (''amount'', \<lparr>dtype = Float, checks = [GreaterThan 0], coerce = True, nullable = False\<rparr>),
         (''description'', \<lparr>dtype = Text, checks = [], coerce = False, nullable = True\<rparr>)],
      schema_checks = [dup_check [''entity'', ''bill_id''] ''expenses''],
      strict = True\<rparr>"

definition payroll_schema :: "string list \<Rightarrow> schema" where
  "payroll_schema allowed_currencies =
     \<lparr>schema_columns =
        [(''month'', \<lparr>dtype = Text, checks = [], coerce = False, nullable = False\<rparr>),
         (''entity'', \<lparr>dtype = Text, checks = [], coerce = False, nullable = False\<rparr>),
         (''employee_id'', \<lparr>dtype = Text, checks = [], coerce = False, nullable = False\<rparr>),
         (''currency'', \<lparr>dtype = Text, checks = [IsIn allowed_currencies], coerce = False,
                          nullable = False\<rparr>),
         (''gross'', \<lparr>dtype = Float, checks = [GreaterThanOrEqualTo 0], coerce = True,
                       nullable = False\<rparr>),
         (''deductions'', \<lparr>dtype = Float, checks = [GreaterThanOrEqualTo 0], coerce = True,
                            nullable = False\<rparr>),
         (''net'', \<lparr>dtype = Float, checks = [GreaterThanOrEqualTo 0], coerce = True,
                     nullable = False\<rparr>)],
      schema_checks = [payroll_identity],
      strict = True\<rparr>"

definition inventory_schema :: "string list \<Rightarrow> schema" where
  "inventory_schema allowed_currencies =
     \<lparr>schema_columns =
        [(''date'', \<lparr>dtype = DateTime, checks = [], coerce = True, nullable = False\<rparr>),
         (''entity'', \<lparr>dtype = Text, checks = [], coerce = False, nullable = False\<rparr>),
         (''sku'', \<lparr>dtype = Text, checks = [], coerce = False, nullable = False\<rparr>),
         (''movement_type'', \<lparr>dtype = Text, checks = [IsIn [''receipt'', ''issue'', ''adjustment'']],
                               coerce = False, nullable = False\<rparr>),
         (''qty'', \<lparr>dtype = Float, checks = [NotEqualTo 0], coerce = True, nullable = False\<rparr>),
         (''unit_cost'', \<lparr>dtype = Float, checks = [GreaterThanOrEqualTo 0], coerce = True,
                           nullable = False\<rparr>),
         (''currency'', \<lparr>dtype = Text, checks = [IsIn allowed_currencies], coerce = False,
                          nullable = False\<rparr>)],
      schema_checks = [],
      strict = True\<rparr>"

definition fx_schema :: "string list \<Rightarrow> string \<Rightarrow> schema" where
  "fx_schema allowed_currencies base_currency =
     \<lparr>schema_columns =
        [(''date'', \<lparr>dtype = DateTime, checks = [], coerce = True, nullable = False\<rparr>),
         (''from_currency'', \<lparr>dtype = Text, checks = [IsIn allowed_currencies], coerce = False,
                               nullable = False\<rparr>),
         (''to_currency'', \<lparr>dtype = Text, checks = [IsIn [base_currency]], coerce = False,
                             nullable = False\<rparr>),
         (''rate'', \<lparr>dtype = Float, checks = [GreaterThan 0], coerce = True, nullable = False\<rparr>)],
      schema_checks = [dup_check [''date'', ''from_currency'', ''to_currency''] ''fx_rates''],
      strict = True\<rparr>"

subsection \<open>Lazy schema validation\<close>

text \<open>
  \<^verbatim>\<open>schema.validate(df, lazy=True)\<close> of the validation library, as far as the pipeline
  relies on it: every rule is run before the outcome is decided, each violation is one
  failure case carrying the label of the rule that failed, and the call returns the
  coerced frame only when there is no failure case at all. The labels are the library's:
  \<^verbatim>\<open>column_in_schema\<close> and \<^verbatim>\<open>column_in_dataframe\<close> for the column set,
  \<^verbatim>\<open>coerce_dtype('...')\<close>, \<^verbatim>\<open>not_nullable\<close> and \<^verbatim>\<open>dtype('...')\<close> for a column, the name of
  a built-in element check, and the \<^verbatim>\<open>error\<close> text of a whole-table check. A column has
  the dtype of its non-null cells. The order of the failure cases in the report is the
  order in which they are found here; nothing below depends on it.
\<close>

record failure_case =
  schema_context :: string
  fc_column :: "string option"
  fc_check :: string
  check_number :: "nat option"
  fc_value :: cell
  fc_index :: "nat option"

definition dtype_name :: "dtype \<Rightarrow> string" where
  "dtype_name d = (case d of DateTime \<Rightarrow> ''datetime64[ns]'' | Text \<Rightarrow> ''str'' | Float \<Rightarrow> ''float64'')"

fun show_nat :: "nat \<Rightarrow> string" where
  "show_nat n = (if n < 10 then [digit_char n] else show_nat (n div 10) @ [digit_char n])"

definition show_int :: "int \<Rightarrow> string" where
  "show_int i = (if i < 0 then ''-'' @ show_nat (nat (- i)) else show_nat (nat i))"

fun check_name :: "check \<Rightarrow> string" where
  "check_name (IsIn vs) = ''isin('' @ repr_list vs @ '')''"
| "check_name (GreaterThan b) = ''greater_than('' @ show_int b @ '')''"
| "check_name (GreaterThanOrEqualTo b) = ''greater_than_or_equal_to('' @ show_int b @ '')''"
| "check_name (NotEqualTo b) = ''not_equal_to('' @ show_int b @ '')''"

fun coerce_cell :: "dtype \<Rightarrow> cell \<Rightarrow> cell option" where
  \<comment> \<open>the cell as a value of the dtype; \<open>None\<close> when it cannot be converted\<close>
  "coerce_cell d Null = Some Null"
| "coerce_cell Float (Num x) = Some (Num x)"
| "coerce_cell Float (Bool b) = Some (Num (if b then 1 else 0))"
| "coerce_cell DateTime (Time t) = Some (Time t)"
| "coerce_cell DateTime (Str s) = (case to_datetime s of Inl e \<Rightarrow> None | Inr t \<Rightarrow> Some (Time t))"
| "coerce_cell Text (Str s) = Some (Str s)"
| "coerce_cell d c = None"

fun kind_ok :: "dtype \<Rightarrow> cell \<Rightarrow> bool" where
  "kind_ok d Null = True"
| "kind_ok DateTime (Time t) = True"
| "kind_ok Text (Str s) = True"
| "kind_ok Float (Num x) = True"
| "kind_ok d c = False"

fun check_holds :: "check \<Rightarrow> cell \<Rightarrow> bool" where
  "check_holds (IsIn vs) (Str s) = (s \<in> set vs)"
| "check_holds (GreaterThan b) (Num x) = (of_int b < x)"
| "check_holds (GreaterThanOrEqualTo b) (Num x) = (of_int b \<le> x)"
| "check_holds (NotEqualTo b) (Num x) = (x \<noteq> of_int b)"
| "check_holds k c = False"

definition coercible :: "column \<Rightarrow> cell list \<Rightarrow> bool" where
  "coercible col cells = (coerce col \<and> list_all (\<lambda>c. coerce_cell (dtype col) c \<noteq> None) cells)"

definition coerce_frame :: "schema \<Rightarrow> frame \<Rightarrow> frame" where
  \<comment> \<open>every column with \<^verbatim>\<open>coerce=True\<close> whose cells all convert is converted; the other
      columns stay as they are\<close>
  "coerce_frame sch df =
     \<lparr>fcols = fcols df,
      frows = map (\<lambda>r. map (\<lambda>n. case map_of (schema_columns sch) n of
                                     None \<Rightarrow> row_get (fcols df) r n
                                   | Some col \<Rightarrow>
                                       if coercible col (column_cells df n)
                                       then (case coerce_cell (dtype col) (row_get (fcols df) r n) of
                                               None \<Rightarrow> row_get (fcols df) r n
                                             | Some v \<Rightarrow> v)
                                       else row_get (fcols df) r n) (fcols df)) (frows df)\<rparr>"

definition coerce_failures :: "string \<Rightarrow> column \<Rightarrow> cell list \<Rightarrow> failure_case list" where
  "coerce_failures n col cells =
     (if coerce col then
        map (\<lambda>(i, c). \<lparr>schema_context = ''Column'', fc_column = Some n,
                        fc_check = ''coerce_dtype('' @ quote (dtype_name (dtype col)) @ '')'',
                        check_number = None, fc_value = c, fc_index = Some i\<rparr>)
          (filter (\<lambda>(i, c). coerce_cell (dtype col) c = None) (enumerate 0 cells))
      else [])"

definition observed_dtype :: "cell list \<Rightarrow> string" where
  "observed_dtype cells =
     (if list_ex (\<lambda>c. case c of Str s \<Rightarrow> True | _ \<Rightarrow> False) cells then ''object''
      else if list_ex (\<lambda>c. case c of Time t \<Rightarrow> True | _ \<Rightarrow> False) cells then ''datetime64[ns]''
      else if list_ex (\<lambda>c. case c of Bool b \<Rightarrow> True | _ \<Rightarrow> False) cells then ''bool''
      else ''float64'')"

definition column_failures :: "string \<Rightarrow> column \<Rightarrow> cell list \<Rightarrow> failure_case list" where
  \<comment> \<open>the checks of one column, on its cells after coercion: nulls, dtype, element checks
      (which skip nulls)\<close>
  "column_failures n col cells =
     (if nullable col then []
      else map (\<lambda>(i, c). \<lparr>schema_context = ''Column'', fc_column = Some n,
                            fc_check = ''not_nullable'', check_number = None,
                            fc_value = Null, fc_index = Some i\<rparr>)
             (filter (\<lambda>(i, c). c = Null) (enumerate 0 cells)))
     @ (if list_all (kind_ok (dtype col)) cells then []
        else [\<lparr>schema_context = ''Column'', fc_column = Some n,
                fc_check = ''dtype('' @ quote (dtype_name (dtype col)) @ '')'',
                check_number = None, fc_value = Str (observed_dtype cells), fc_index = None\<rparr>])
     @ concat (map (\<lambda>(k, chk).
                  map (\<lambda>(i, c). \<lparr>schema_context = ''Column'', fc_column = Some n,
                                  fc_check = check_name chk, check_number = Some k,
                                  fc_value = c, fc_index = Some i\<rparr>)
                    (filter (\<lambda>(i, c). c \<noteq> Null \<and> \<not> check_holds chk c) (enumerate 0 cells)))
               (enumerate 0 (checks col)))"

definition table_failures :: "nat \<Rightarrow> table_check \<Rightarrow> frame \<Rightarrow> failure_case list" where
  \<comment> \<open>a whole-table check fails when its function returns false, and also when it raises\<close>
  "table_failures k chk df =
     (case check_fn chk df of
        Inr True \<Rightarrow> []
      | Inr False \<Rightarrow>
          [\<lparr>schema_context = ''DataFrameSchema'', fc_column = None, fc_check = error_text chk,
            check_number = Some k, fc_value = Bool False, fc_index = None\<rparr>]
      | Inl e \<Rightarrow>
          [\<lparr>schema_context = ''DataFrameSchema'', fc_column = None, fc_check = error_text chk,
            check_number = Some k, fc_value = Str e, fc_index = None\<rparr>])"

definition frame_failure :: "string \<Rightarrow> string \<Rightarrow> failure_case" where
  "frame_failure chk c =
     \<lparr>schema_context = ''DataFrameSchema'', fc_column = None, fc_check = chk,
      check_number = None, fc_value = Str c, fc_index = None\<rparr>"

definition validate :: "schema \<Rightarrow> frame \<Rightarrow> failure_case list + frame" where
  "validate sch df =
     (let names = map fst (schema_columns sch);
          present = filter (\<lambda>(n, col). n \<in> set (fcols df)) (schema_columns sch);
          unexpected = (if strict sch
                        then map (frame_failure ''column_in_schema'')
                               (filter (\<lambda>c. c \<notin> set names) (fcols df))
                        else []);
          coercion = concat (map (\<lambda>(n, col). coerce_failures n col (column_cells df n)) present);
          coerced = coerce_frame sch df;
          missing = map (frame_failure ''column_in_dataframe'')
                      (filter (\<lambda>n. n \<notin> set (fcols df)) names);
          components = concat (map (\<lambda>(n, col). column_failures n col (column_cells coerced n))
                                 present);
          wide = concat (map (\<lambda>(k, chk). table_failures k chk coerced)
                           (enumerate 0 (schema_checks sch)));
          failures = unexpected @ coercion @ missing @ components @ wide
      in if failures = [] then Inr coerced else Inl failures)"

record dq_exception = failure_case +
  dataset :: string

record dq_tagged = dq_exception +
  severity :: string

definition validate_or_collect ::
  "frame \<Rightarrow> schema \<Rightarrow> string \<Rightarrow> dq_exception list list \<Rightarrow> frame option \<times> dq_exception list list" where
  \<comment> \<open>returns the validated frame, or \<open>None\<close> after appending the failure cases, tagged with
      the dataset name, to \<open>issues\<close>; the second component is \<open>issues\<close> afterwards\<close>
  "validate_or_collect df sch dataset_name issues =
     (case validate sch df of
        Inr v \<Rightarrow> (Some v, issues)
      | Inl fc \<Rightarrow>
          (None, issues @ [map (\<lambda>f. failure_case.extend f (dq_exception.fields dataset_name)) fc]))"

definition empty_frame :: "schema \<Rightarrow> frame" where
  \<comment> \<open>a file with the header of the schema's columns and no row\<close>
  "empty_frame sch = \<lparr>fcols = map fst (schema_columns sch), frows = []\<rparr>"

definition table_failure :: "table_check \<Rightarrow> failure_case" where
  \<comment> \<open>the failure case of the first whole-table check of a schema when it returns false\<close>
  "table_failure chk =
     \<lparr>schema_context = ''DataFrameSchema'', fc_column = None, fc_check = error_text chk,
      check_number = Some 0, fc_value = Bool False, fc_index = None\<rparr>"

subsection \<open>Severity of data-quality exceptions\<close>

definition lower_char :: "char \<Rightarrow> char" where
  "lower_char c =
     (if 65 \<le> (of_char c :: nat) \<and> (of_char c :: nat) \<le> 90 then char_of (of_char c + 32 :: nat) else c)"

definition upper_char :: "char \<Rightarrow> char" where
  "upper_char c =
     (if 97 \<le> (of_char c :: nat) \<and> (of_char c :: nat) \<le> 122 then char_of (of_char c - 32 :: nat) else c)"

fun contains :: "string \<Rightarrow> string \<Rightarrow> bool" where
  \<comment> \<open>\<open>contains p s\<close>: the text \<open>p\<close> occurs in \<open>s\<close>\<close>
  "contains p [] = (p = [])"
| "contains p (c # cs) = (take (length p) (c # cs) = p \<or> contains p cs)"

definition critical_checks :: "string list" where
  "critical_checks = [''dtype'', ''required'', ''Duplicates found'', ''Payroll identity'']"

definition str_contains :: "string list \<Rightarrow> string \<Rightarrow> bool" where
  \<comment> \<open>\<^verbatim>\<open>.str.contains("a|b|...", case=False)\<close> for alternatives without regex operators:
      one of them occurs in the text, letter case ignored\<close>
  "str_contains alternatives s =
     list_ex (\<lambda>p. contains (map lower_char p) (map lower_char s)) alternatives"

definition severity_of :: "string \<Rightarrow> string" where
  "severity_of chk = (if str_contains critical_checks chk then ''ERROR'' else ''WARN'')"

definition tag_severity :: "dq_exception list \<Rightarrow> dq_tagged list" where
  "tag_severity dq =
     map (\<lambda>x. dq_exception.extend x (dq_tagged.fields (severity_of (fc_check x)))) dq"

definition dq_summary :: "dq_tagged list \<Rightarrow> (string \<times> string \<times> nat) list" where
  \<comment> \<open>the issue count per (dataset, severity), sorted by severity and falling count\<close>
  "dq_summary dq =
     sort_key (\<lambda>(d, s, n). (s, - int n))
       (map (\<lambda>k. (fst k, snd k, length (filter (\<lambda>x. (dataset x, severity x) = k) dq)))
          (group_keys id (map (\<lambda>x. (dataset x, severity x)) dq)))"

subsection \<open>Validated frames as typed rows\<close>

text \<open>
  A validated frame has the columns of its schema, and under a non-nullable column of a
  dtype only cells of that dtype; the other equations of the readers below are never
  used on one.
\<close>

fun time_of :: "cell \<Rightarrow> timestamp" where
  "time_of (Time t) = t"
| "time_of c = ((0, 0, 0), 0)"

fun text_of :: "cell \<Rightarrow> string" where
  "text_of (Str s) = s"
| "text_of c = []"

fun num_of :: "cell \<Rightarrow> rat" where
  "num_of (Num x) = x"
| "num_of c = 0"

fun text_opt :: "cell \<Rightarrow> string option" where
  "text_opt (Str s) = Some s"
| "text_opt c = None"

definition sales_rows :: "frame \<Rightarrow> sale list" where
  "sales_rows df =
     map (\<lambda>r. \<lparr>s_date = time_of (row_get (fcols df) r ''date''),
                s_entity = text_of (row_get (fcols df) r ''entity''),
                invoice_id = text_of (row_get (fcols df) r ''invoice_id''),
                s_account_code = text_of (row_get (fcols df) r ''account_code''),
                s_currency = text_of (row_get (fcols df) r ''currency''),
                s_amount = num_of (row_get (fcols df) r ''amount''),
                s_description = text_opt (row_get (fcols df) r ''description'')\<rparr>) (frows df)"

definition expenses_rows :: "frame \<Rightarrow> expense list" where
  "expenses_rows df =
     map (\<lambda>r. \<lparr>e_date = time_of (row_get (fcols df) r ''date''),
                e_entity = text_of (row_get (fcols df) r ''entity''),
                bill_id = text_of (row_get (fcols df) r ''bill_id''),
                e_account_code = text_of (row_get (fcols df) r ''account_code''),
                e_currency = text_of (row_get (fcols df) r ''currency''),
                e_amount = num_of (row_get (fcols df) r ''amount''),
                e_description = text_opt (row_get (fcols df) r ''description'')\<rparr>) (frows df)"

definition payroll_rows :: "frame \<Rightarrow> payroll list" where
  "payroll_rows df =
     map (\<lambda>r. \<lparr>month = text_of (row_get (fcols df) r ''month''),
                p_entity = text_of (row_get (fcols df) r ''entity''),
                employee_id = text_of (row_get (fcols df) r ''employee_id''),
                p_currency = text_of (row_get (fcols df) r ''currency''),
                gross = num_of (row_get (fcols df) r ''gross''),
                deductions = num_of (row_get (fcols df) r ''deductions''),
                net = num_of (row_get (fcols df) r ''net'')\<rparr>) (frows df)"

definition inventory_rows :: "frame \<Rightarrow> inventory list" where
  "inventory_rows df =
     map (\<lambda>r. \<lparr>i_date = time_of (row_get (fcols df) r ''date''),
                i_entity = text_of (row_get (fcols df) r ''entity''),
                sku = text_of (row_get (fcols df) r ''sku''),
                movement_type = text_of (row_get (fcols df) r ''movement_type''),
                qty = num_of (row_get (fcols df) r ''qty''),
                unit_cost = num_of (row_get (fcols df) r ''unit_cost''),
                i_currency = text_of (row_get (fcols df) r ''currency'')\<rparr>) (frows df)"

definition fx_rows :: "frame \<Rightarrow> fx_row list" where
  "fx_rows df =
     map (\<lambda>r. \<lparr>fx_date = time_of (row_get (fcols df) r ''date''),
                from_currency = text_of (row_get (fcols df) r ''from_currency''),
                to_currency = text_of (row_get (fcols df) r ''to_currency''),
                fx_rate = num_of (row_get (fcols df) r ''rate'')\<rparr>) (frows df)"

subsection \<open>The monthly run\<close>

text \<open>
  \<^verbatim>\<open>run_month\<close> reads six files and writes up to five. The input files are a record of
  optional frames (\<open>None\<close>: the file does not exist); the result is the list of artifacts
  written, in the order of writing, together with the error raised or the names of the
  outputs returned.
\<close>

record settings =
  base_currency :: string
  allowed_currencies :: "string list"

record inputs =
  chart_of_accounts_csv :: "coa_row list option"
  sales_csv :: "frame option"
  expenses_csv :: "frame option"
  payroll_csv :: "frame option"
  inventory_movements_csv :: "frame option"
  fx_rates_csv :: "frame option"

datatype summary = Pass string | IssueCounts "(string \<times> string \<times> nat) list"

datatype artifact =
    DqExceptions "dq_tagged list"
  | DqSummary summary
  | FactTransactions "fact list"
  | DimAccounts "account list"
  | KpiMonthly "kpi_row list"

definition is_space :: "char \<Rightarrow> bool" where
  "is_space c =
     ((of_char c :: nat) = 32 \<or> (9 \<le> (of_char c :: nat) \<and> (of_char c :: nat) \<le> 13) \<or>
      (28 \<le> (of_char c :: nat) \<and> (of_char c :: nat) \<le> 31))"

definition strip :: "string \<Rightarrow> string" where
  "strip s = rev (dropWhile is_space (rev (dropWhile is_space s)))"

definition upper :: "string \<Rightarrow> string" where
  "upper s = map upper_char s"

definition month_window :: "string \<Rightarrow> error + timestamp \<times> timestamp" where
  "month_window m =
     (case to_datetime (m @ ''-01'') of
        Inl e \<Rightarrow> Inl e
      | Inr start \<Rightarrow> Inr (start, month_begin start))"

definition read_csv :: "string \<Rightarrow> 'a option \<Rightarrow> error + 'a" where
  "read_csv path file = (case file of None \<Rightarrow> Inl (FileNotFoundError path) | Some df \<Rightarrow> Inr df)"

definition load_inputs ::
  "inputs \<Rightarrow> error + coa_row list \<times> frame \<times> frame \<times> frame \<times> frame \<times> frame" where
  \<comment> \<open>the reads of \<^verbatim>\<open>run_month\<close>, in its order; the first missing file raises\<close>
  "load_inputs inp =
     (case read_csv ''chart_of_accounts.csv'' (chart_of_accounts_csv inp) of
        Inl e \<Rightarrow> Inl e
      | Inr coa \<Rightarrow>
     (case read_csv ''sales.csv'' (sales_csv inp) of
        Inl e \<Rightarrow> Inl e
      | Inr sales \<Rightarrow>
     (case read_csv ''expenses.csv'' (expenses_csv inp) of
        Inl e \<Rightarrow> Inl e
      | Inr expenses \<Rightarrow>
     (case read_csv ''payroll.csv'' (payroll_csv inp) of
        Inl e \<Rightarrow> Inl e
      | Inr payroll \<Rightarrow>
     (case read_csv ''inventory_movements.csv'' (inventory_movements_csv inp) of
        Inl e \<Rightarrow> Inl e
      | Inr inventory \<Rightarrow>
     (case read_csv ''fx_rates.csv'' (fx_rates_csv inp) of
        Inl e \<Rightarrow> Inl e
      | Inr fx_rates \<Rightarrow> Inr (coa, sales, expenses, payroll, inventory, fx_rates)))))))"

record validated =
  v_sales :: "frame option"
  v_exp :: "frame option"
  v_pay :: "frame option"
  v_inv :: "frame option"
  v_fx :: "frame option"
  issues :: "dq_exception list list"

definition validate_raw ::
  "settings \<Rightarrow> frame \<Rightarrow> frame \<Rightarrow> frame \<Rightarrow> frame \<Rightarrow> frame \<Rightarrow> validated" where
  \<comment> \<open>the five calls of \<^verbatim>\<open>validate_or_collect\<close>, threading the list \<open>issues\<close>\<close>
  "validate_raw st sales expenses payroll inventory fx_rates =
     (let (vs, i1) = validate_or_collect sales (sales_schema (allowed_currencies st)) ''sales'' [];
          (ve, i2) = validate_or_collect expenses (expenses_schema (allowed_currencies st))
                       ''expenses'' i1;
          (vp, i3) = validate_or_collect payroll (payroll_schema (allowed_currencies st))
                       ''payroll'' i2;
          (vi, i4) = validate_or_collect inventory (inventory_schema (allowed_currencies st))
                       ''inventory_movements'' i3;
          (vf, i5) = validate_or_collect fx_rates
                       (fx_schema (allowed_currencies st) (base_currency st)) ''fx_rates'' i4
      in \<lparr>v_sales = vs, v_exp = ve, v_pay = vp, v_inv = vi, v_fx = vf, issues = i5\<rparr>)"

definition curate ::
  "settings \<Rightarrow> string \<Rightarrow> account list \<Rightarrow> validated \<Rightarrow> artifact list
     \<Rightarrow> artifact list \<times> (error + string list)" where
  \<comment> \<open>\<^verbatim>\<open>run_month\<close> from the month window on, after the artifacts \<open>written\<close>: subscripting
      a frame that is \<open>None\<close> raises a TypeError, calling its \<^verbatim>\<open>copy\<close> an AttributeError\<close>
  "curate st m dim_accounts v written =
     (case month_window m of
        Inl e \<Rightarrow> (written, Inl e)
      | Inr (start, end) \<Rightarrow>
     (case v_sales v of
        None \<Rightarrow> (written, Inl NoneTypeError)
      | Some vs \<Rightarrow>
     (case v_exp v of
        None \<Rightarrow> (written, Inl NoneTypeError)
      | Some ve \<Rightarrow>
     (case v_inv v of
        None \<Rightarrow> (written, Inl NoneTypeError)
      | Some vi \<Rightarrow>
     (case v_pay v of
        None \<Rightarrow> (written, Inl NoneTypeError)
      | Some vp \<Rightarrow>
     (case v_fx v of
        None \<Rightarrow> (written, Inl NoneAttributeError)
      | Some vf \<Rightarrow>
     (case to_fact_transactions
             (filter (\<lambda>s. start \<le> s_date s \<and> s_date s < end) (sales_rows vs))
             (filter (\<lambda>e. start \<le> e_date e \<and> e_date e < end) (expenses_rows ve))
             (filter (\<lambda>p. month p = m) (payroll_rows vp))
             (filter (\<lambda>i. start \<le> i_date i \<and> i_date i < end) (inventory_rows vi))
             (fx_to_base (fx_rows vf) (base_currency st))
             (base_currency st) of
        Inl e \<Rightarrow> (written, Inl e)
      | Inr fct \<Rightarrow>
          (written @ [FactTransactions fct, DimAccounts dim_accounts,
                      KpiMonthly (kpi_monthly fct dim_accounts)],
           Inr [''dq_exceptions'', ''dq_summary'', ''fact'', ''dim_accounts'', ''kpi'']))))))))"

definition run_month ::
  "settings \<Rightarrow> string \<Rightarrow> inputs \<Rightarrow> string \<Rightarrow> artifact list \<times> (error + string list)" where
  "run_month st m inp fail_on =
     (case load_inputs inp of
        Inl e \<Rightarrow> ([], Inl e)
      | Inr (coa, sales, expenses, payroll, inventory, fx_rates) \<Rightarrow>
          (let dim_accounts = build_dim_accounts coa;
               v = validate_raw st sales expenses payroll inventory fx_rates
           in if issues v \<noteq> [] then
                (let dq_exceptions = tag_severity (concat (issues v));
                     written = [DqExceptions dq_exceptions,
                                DqSummary (IssueCounts (dq_summary dq_exceptions))];
                     fail_on' = strip (upper fail_on)
                 in if fail_on' \<notin> set [''ERROR'', ''WARN'', ''NEVER'']
                    then (written, Inl ConfigValueError)
                    else if fail_on' = ''WARN''
                    then (written, Inl (DQFailed ''WARN+ERROR''))
                    else if fail_on' = ''ERROR'' \<and> list_ex (\<lambda>x. severity x = ''ERROR'') dq_exceptions
                    then (written, Inl (DQFailed ''ERROR''))
                    else curate st m dim_accounts v written)
              else curate st m dim_accounts v [DqExceptions [], DqSummary (Pass m)]))"

subsection \<open>Example rows\<close>


definition expense_eur :: txn where
  "expense_eur =
     \<lparr>date = ((2025, 12, 5), 0), entity = ''TLM'', source = ''expenses'',
      document_id = ''BILL-0001'', account_code = ''62000001'', currency = ''EUR'',
      amount = - 100, description = None\<rparr>"

definition eur_rate :: "nat \<Rightarrow> rat \<Rightarrow> fx_row" where
  "eur_rate d x =
     \<lparr>fx_date = ((2025, 12, d), 0), from_currency = ''EUR'', to_currency = ''USD'',
      fx_rate = x\<rparr>"




definition sale_fact :: "string \<Rightarrow> string \<Rightarrow> rat \<Rightarrow> fact" where
  \<comment> \<open>the ledger record of \<open>sale_row\<close>\<close>
  "sale_fact doc acc x =
     \<lparr>date = ((2025, 12, 5), 0), entity = ''TLM'', source = ''sales'',
      document_id = doc, account_code = acc, currency = ''USD'',
      amount = x, description = None, rate = 1, amount_base = x,
      txn_id = ''TLM|sales|'' @ doc\<rparr>"

definition chart_revenue :: "account list" where
  \<comment> \<open>a chart of accounts with the one revenue account 40000001\<close>
  "chart_revenue =
     [\<lparr>acc_code = ''40000001'', acc_name = Some ''Sales'', acc_type = Some ''Revenue''\<rparr>]"

definition default_settings :: settings where
  \<comment> \<open>the defaults of \<^verbatim>\<open>config.py\<close>\<close>
  "default_settings = \<lparr>base_currency = ''USD'', allowed_currencies = [''USD'', ''TZS'', ''EUR'']\<rparr>"

definition sales_frame :: "cell list list \<Rightarrow> frame" where
  "sales_frame rs =
     \<lparr>fcols = [''date'', ''entity'', ''invoice_id'', ''account_code'', ''currency'', ''amount'',
               ''description''],
      frows = rs\<rparr>"

definition sale_cells :: "cell \<Rightarrow> string \<Rightarrow> cell list" where
  \<comment> \<open>a line of \<^verbatim>\<open>sales.csv\<close>, by entity and invoice\<close>
  "sale_cells ent doc =
     [Time ((2025, 12, 5), 0), ent, Str doc, Str ''40000001'', Str ''USD'', Num 1000, Null]"

definition expenses_frame :: frame where
  "expenses_frame =
     \<lparr>fcols = [''date'', ''entity'', ''bill_id'', ''account_code'', ''currency'', ''amount'',
               ''description''],
      frows = [[Time ((2025, 12, 5), 0), Str ''TLM'', Str ''BILL-0001'', Str ''62000001'',
                Str ''USD'', Num 100, Null]]\<rparr>"

definition payroll_frame :: frame where
  "payroll_frame =
     \<lparr>fcols = [''month'', ''entity'', ''employee_id'', ''currency'', ''gross'', ''deductions'',
               ''net''],
      frows = [[Str ''2025-12'', Str ''TLM'', Str ''EMP-001'', Str ''USD'', Num 900, Num 0,
                Num 900]]\<rparr>"

definition fx_frame :: frame where
  "fx_frame =
     \<lparr>fcols = [''date'', ''from_currency'', ''to_currency'', ''rate''],
      frows = [[Time ((2025, 12, 5), 0), Str ''EUR'', Str ''USD'', Num (11 / 10)]]\<rparr>"

definition chart :: "coa_row list" where
  "chart =
     [\<lparr>coa_code = Some ''40000001'', coa_name = Some ''Sales'', coa_type = Some ''Revenue''\<rparr>,
      \<lparr>coa_code = Some ''61000001'', coa_name = Some ''Payroll'', coa_type = Some ''Expense''\<rparr>,
      \<lparr>coa_code = Some ''62000001'', coa_name = Some ''Rent'', coa_type = Some ''Expense''\<rparr>]"

definition month_inputs :: "frame \<Rightarrow> inputs" where
  \<comment> \<open>the files of a run, by the content of \<^verbatim>\<open>sales.csv\<close>; the other files are valid\<close>
  "month_inputs sales =
     \<lparr>chart_of_accounts_csv = Some chart,
      sales_csv = Some sales,
      expenses_csv = Some expenses_frame,
      payroll_csv = Some payroll_frame,
      inventory_movements_csv = Some (empty_frame (inventory_schema [''USD'', ''TZS'', ''EUR''])),
      fx_rates_csv = Some fx_frame\<rparr>"

definition dup_sales :: frame where
  \<comment> \<open>a \<^verbatim>\<open>sales.csv\<close> with the invoice INV-0001 of entity TLM twice\<close>
  "dup_sales = sales_frame [sale_cells (Str ''TLM'') ''INV-0001'', sale_cells (Str ''TLM'') ''INV-0001'']"


definition null_entity_sales :: frame where
  \<comment> \<open>a \<^verbatim>\<open>sales.csv\<close> whose second line has no entity\<close>
  "null_entity_sales = sales_frame [sale_cells (Str ''TLM'') ''INV-0001'', sale_cells Null ''INV-0002'']"

definition dup_exception :: dq_tagged where
  \<comment> \<open>the tagged exception of the duplicate-key check of sales\<close>
  "dup_exception =
     \<lparr>schema_context = ''DataFrameSchema'', fc_column = None,
      fc_check = error_text (dup_check [''entity'', ''invoice_id''] ''sales''),
      check_number = Some 0, fc_value = Bool False, fc_index = None, dataset = ''sales'',
      severity = ''ERROR''\<rparr>"


definition intraday_fx :: frame where
  \<comment> \<open>two EUR rates on 2025-12-05, at 09:00 and at 17:00\<close>
  "intraday_fx =
     \<lparr>fcols = [''date'', ''from_currency'', ''to_currency'', ''rate''],
      frows = [[Time ((2025, 12, 5), 32400), Str ''EUR'', Str ''USD'', Num (11 / 10)],
               [Time ((2025, 12, 5), 61200), Str ''EUR'', Str ''USD'', Num (6 / 5)]]\<rparr>"

section \<open>Properties\<close>

subsection \<open>Left merge and duplicate removal\<close>


lemma merge_left_Cons:
  "merge_left kl kr (a # as) right =
     (case filter (\<lambda>b. kr b = kl a) right of [] \<Rightarrow> [(a, None)] | bs \<Rightarrow> map (\<lambda>b. (a, Some b)) bs)
     @ merge_left kl kr as right"
  by (simp add: merge_left_def)

lemma merge_left_Nil: "merge_left kl kr [] right = []"
  by (simp add: merge_left_def)





lemma set_drop_duplicates: "set (drop_duplicates xs) = set xs"
  by (induction xs rule: drop_duplicates.induct) auto












subsection \<open>Conversion in the base currency\<close>




subsection \<open>Row-for-row conversion under a unique lookup\<close>






text \<open>
  The precondition is needed: with a duplicated (date, from_currency) key the left merge
  yields two rows for the one matching record, the mask taken before the merge no longer
  aligns with the merged frame, and the call raises instead of returning.
\<close>

lemma add_fx_amount_base_duplicate_key:
  "merge_left (\<lambda>r. (date_key r, currency r)) fx_key [expense_eur]
     [eur_rate 5 (11 / 10), eur_rate 5 (6 / 5)] =
     [(expense_eur, Some (eur_rate 5 (11 / 10))), (expense_eur, Some (eur_rate 5 (6 / 5)))]
   \<and> add_fx_amount_base [expense_eur] [eur_rate 5 (11 / 10), eur_rate 5 (6 / 5)] ''USD'' =
       Inl IndexingError"
  by (simp add: add_fx_amount_base_def merge_left_def fx_key_def date_key_def dt_date_def
        eur_rate_def expense_eur_def)

subsection \<open>Missing exchange rates\<close>



subsection \<open>Payroll rows in the ledger\<close>










lemma to_datetime_2025_12: "to_datetime ''2025-12-01'' = Inr ((2025, 12, 1), 0)"
  by code_simp





subsection \<open>Unclassified account codes in the KPIs\<close>

lemma filter_drop_duplicates:
  "filter P (drop_duplicates xs) = drop_duplicates (filter P xs)"
proof (induction xs rule: drop_duplicates.induct)
  case 1
  show ?case by simp
next
  case (2 x xs)
  have comm: "filter P (filter (\<lambda>y. y \<noteq> x) xs) = filter (\<lambda>y. y \<noteq> x) (filter P xs)"
    by (simp add: conj_commute)
  show ?case
  proof (cases "P x")
    case True
    with 2 comm show ?thesis by simp
  next
    case False
    then have "filter (\<lambda>y. y \<noteq> x) (filter P xs) = filter P xs"
      by (intro filter_True) auto
    with False 2 comm show ?thesis by simp
  qed
qed

lemma filter_group_keys:
  "filter P (group_keys ord ks) = group_keys ord (filter P ks)"
  by (simp add: group_keys_def filter_sort filter_drop_duplicates)

lemma merge_left_filter_matched:
  "merge_left kl kr (filter (\<lambda>a. kl a \<in> kr ` set right) left) right =
   filter (\<lambda>p. snd p \<noteq> None) (merge_left kl kr left right)"
proof (induction left)
  case Nil
  show ?case by (simp add: merge_left_Nil)
next
  case (Cons a as)
  show ?case
  proof (cases "filter (\<lambda>b. kr b = kl a) right")
    case Nil
    then have "kl a \<notin> kr ` set right"
      by (auto simp: filter_empty_conv)
    with Nil Cons show ?thesis
      by (simp add: merge_left_Cons)
  next
    case (Cons b bs)
    then have "b \<in> set (filter (\<lambda>b. kr b = kl a) right)"
      by simp
    then have "kl a \<in> kr ` set right"
      by force
    moreover have "filter (\<lambda>p. snd p \<noteq> None) (map (\<lambda>b. (a, Some b)) (b # bs)) =
                     map (\<lambda>b. (a, Some b)) (b # bs)"
      by (simp add: filter_id_conv)
    ultimately show ?thesis
      using Cons Cons.IH by (simp add: merge_left_Cons)
  qed
qed



lemma dropna_keys:
  assumes "\<And>e m c. (e, m, Some c) \<in> set ks \<Longrightarrow> f (e, m, Some c) = g (e, m, Some c)"
  shows "dropna (map (\<lambda>k. (k, f k)) ks) =
         dropna (map (\<lambda>k. (k, g k)) (filter (\<lambda>(e, m, t). t \<noteq> None) ks))"
  using assms
proof (induction ks)
  case Nil
  show ?case by simp
next
  case (Cons k ks)
  obtain e m t where k: "k = (e, m, t)"
    by (cases k)
  show ?case
  proof (cases t)
    case None
    with k Cons show ?thesis by simp
  next
    case (Some c)
    with k Cons.prems have "f k = g k" by simp
    with k Some Cons show ?thesis by simp
  qed
qed

lemma dropna_groupby_sum:
  "dropna (groupby_sum df) = dropna (groupby_sum (filter typed df))"
proof -
  let ?key = "\<lambda>(e, m, t, v). (e, m, t)"
  let ?ord = "\<lambda>(e, m, t). (e, m, nan_last t)"
  let ?some = "\<lambda>(e, m, t). t \<noteq> None"
  let ?sum = "\<lambda>d k. sum_list (map (\<lambda>(e, m, t, v). v) (filter (\<lambda>(e, m, t, v). (e, m, t) = k) d))"
  have keys: "filter ?some (group_keys ?ord (map ?key df)) =
              group_keys ?ord (map ?key (filter typed df))"
  proof -
    have "filter ?some (map ?key df) = map ?key (filter typed df)"
      by (induction df) (auto simp: typed_def)
    then show ?thesis
      by (simp only: filter_group_keys)
  qed
  have sums: "?sum df (e, m, Some c) = ?sum (filter typed df) (e, m, Some c)" for e m c
  proof -
    have "filter (\<lambda>(e', m', t, v). (e', m', t) = (e, m, Some c)) (filter typed df) =
          filter (\<lambda>(e', m', t, v). (e', m', t) = (e, m, Some c)) df"
      by (auto simp: typed_def intro!: filter_cong)
    then show ?thesis by simp
  qed
  have "dropna (groupby_sum df) = dropna (map (\<lambda>k. (k, ?sum df k)) (group_keys ?ord (map ?key df)))"
    by (simp add: groupby_sum_def)
  also have "\<dots> = dropna (map (\<lambda>k. (k, ?sum (filter typed df) k))
                        (filter ?some (group_keys ?ord (map ?key df))))"
    by (rule dropna_keys) (rule sums)
  also have "\<dots> = dropna (groupby_sum (filter typed df))"
    by (simp only: keys groupby_sum_def)
  finally show ?thesis .
qed

lemma pivot_table_groupby_sum:
  "pivot_table (groupby_sum df) = pivot_table (groupby_sum (filter typed df))"
  by (simp add: pivot_table_def dropna_groupby_sum [of df])

lemma kpi_monthly_unmatched_dropped:
  "kpi_monthly fct dim_accounts =
   kpi_monthly (filter (\<lambda>r. account_code r \<in> acc_code ` set dim_accounts) fct) dim_accounts"
proof -
  let ?row = "\<lambda>(r, a). (entity r, period_str (date r),
                               (case a of None \<Rightarrow> None | Some d \<Rightarrow> acc_type d), amount_base r)"
  let ?m = "merge_left account_code acc_code fct dim_accounts"
  let ?m' = "filter (\<lambda>p. snd p \<noteq> None) ?m"
  have eq: "filter typed (map ?row (filter (\<lambda>p. snd p \<noteq> None) ms)) = filter typed (map ?row ms)"
    for ms :: "(fact \<times> account option) list"
    by (induction ms) (auto simp: typed_def)
  have "pivot_table (groupby_sum (map ?row ?m')) =
        pivot_table (groupby_sum (filter typed (map ?row ?m')))"
    by (rule pivot_table_groupby_sum)
  also have "\<dots> = pivot_table (groupby_sum (filter typed (map ?row ?m)))"
    by (simp only: eq)
  also have "\<dots> = pivot_table (groupby_sum (map ?row ?m))"
    by (rule pivot_table_groupby_sum [symmetric])
  finally have pv: "pivot_table (groupby_sum (map ?row ?m')) =
                    pivot_table (groupby_sum (map ?row ?m))" .
  show ?thesis
    unfolding kpi_monthly_def merge_left_filter_matched Let_def pv ..
qed

text \<open>
  C7 at a failing input. The ledger holds a sale of 1000 on the revenue account 40000001
  and a sale of 50 on the code 99999999, which the chart of accounts does not list. The
  KPI row of (TLM, 2025-12) has the columns Revenue, COGS and Expense only: the 50 is in
  no column, so it is dropped and not summed into a bucket of its own.
\<close>

theorem kpi_unclassified_dropped:
  "kpi_monthly [sale_fact ''INV-0001'' ''40000001'' 1000, sale_fact ''INV-0002'' ''99999999'' 50]
     chart_revenue =
   [\<lparr>k_entity = ''TLM'', k_month = ''2025-12'',
     k_columns = [(''Revenue'', 1000), (''COGS'', 0), (''Expense'', 0)],
     gross_profit = 1000, operating_profit = 1000\<rparr>]"
  by code_simp

subsection \<open>Empty batches\<close>

lemmas validate_defs =
  validate_def coerce_frame_def coerce_failures_def column_failures_def table_failures_def
  column_cells_def frame_failure_def empty_frame_def table_failure_def coercible_def row_get_def


lemma validate_empty_sales:
  "validate (sales_schema ac) (empty_frame (sales_schema ac)) =
     Inl [table_failure (dup_check [''entity'', ''invoice_id''] ''sales'')]"
  by (simp add: validate_defs sales_schema_def dup_check_def groupby_size_def)

lemma validate_empty_expenses:
  "validate (expenses_schema ac) (empty_frame (expenses_schema ac)) =
     Inl [table_failure (dup_check [''entity'', ''bill_id''] ''expenses'')]"
  by (simp add: validate_defs expenses_schema_def dup_check_def groupby_size_def)

lemma validate_empty_fx:
  "validate (fx_schema ac b) (empty_frame (fx_schema ac b)) =
     Inl [table_failure (dup_check [''date'', ''from_currency'', ''to_currency''] ''fx_rates'')]"
  by (simp add: validate_defs fx_schema_def dup_check_def groupby_size_def)

lemma validate_empty_payroll:
  "validate (payroll_schema ac) (empty_frame (payroll_schema ac)) =
     Inl [table_failure payroll_identity]"
  by (simp add: validate_defs payroll_schema_def payroll_identity_def)

text \<open>An empty inventory batch passes: its schema has no whole-table check.\<close>

lemma validate_empty_inventory:
  "validate (inventory_schema ac) (empty_frame (inventory_schema ac)) =
     Inr (empty_frame (inventory_schema ac))"
  by (simp add: validate_defs inventory_schema_def)

text \<open>
  C9. A sales, expenses or fx_rates batch with the right columns and no row fails the
  duplicate-key check of its schema, and an empty payroll batch fails the payroll
  identity check: the maximum over no rows is not a number, so the comparison is false.
  Each of the four is classified invalid: \<^verbatim>\<open>validate_or_collect\<close> returns \<open>None\<close> and
  appends one data-quality exception, that of the whole-table check.
\<close>

theorem empty_batch_fails_table_check:
  "validate_or_collect (empty_frame (sales_schema ac)) (sales_schema ac) ''sales'' iss =
     (None, iss @ [[failure_case.extend
                      (table_failure (dup_check [''entity'', ''invoice_id''] ''sales''))
                      (dq_exception.fields ''sales'')]]) \<and>
   validate_or_collect (empty_frame (expenses_schema ac)) (expenses_schema ac) ''expenses'' iss =
     (None, iss @ [[failure_case.extend
                      (table_failure (dup_check [''entity'', ''bill_id''] ''expenses''))
                      (dq_exception.fields ''expenses'')]]) \<and>
   validate_or_collect (empty_frame (fx_schema ac b)) (fx_schema ac b) ''fx_rates'' iss =
     (None, iss @ [[failure_case.extend
                      (table_failure (dup_check [''date'', ''from_currency'', ''to_currency'']
                         ''fx_rates''))
                      (dq_exception.fields ''fx_rates'')]]) \<and>
   validate_or_collect (empty_frame (payroll_schema ac)) (payroll_schema ac) ''payroll'' iss =
     (None, iss @ [[failure_case.extend (table_failure payroll_identity)
                      (dq_exception.fields ''payroll'')]]) \<and>
   series_max ([] :: nat list) = None \<and> series_max ([] :: rat list) = None"
  by (simp add: validate_or_collect_def validate_empty_sales validate_empty_expenses
        validate_empty_fx validate_empty_payroll)

subsection \<open>What a validated frame holds\<close>

lemma validate_Inr:
  assumes "validate sch df = Inr v"
  shows "v = coerce_frame sch df"
    and "\<And>n. n \<in> set (map fst (schema_columns sch)) \<Longrightarrow> n \<in> set (fcols df)"
    and "\<And>n col. (n, col) \<in> set (schema_columns sch) \<Longrightarrow>
           column_failures n col (column_cells v n) = []"
    and "\<And>k chk. (k, chk) \<in> set (enumerate 0 (schema_checks sch)) \<Longrightarrow>
           table_failures k chk v = []"
proof -
  let ?names = "map fst (schema_columns sch)"
  let ?present = "filter (\<lambda>(n, col). n \<in> set (fcols df)) (schema_columns sch)"
  from assms have v: "v = coerce_frame sch df"
    by (simp add: validate_def Let_def split: if_splits)
  from assms have
    m: "map (frame_failure ''column_in_dataframe'') (filter (\<lambda>n. n \<notin> set (fcols df)) ?names) = []" and
    c: "concat (map (\<lambda>(n, col). column_failures n col (column_cells (coerce_frame sch df) n)) ?present) = []" and
    w: "concat (map (\<lambda>(k, chk). table_failures k chk (coerce_frame sch df))
                           (enumerate 0 (schema_checks sch))) = []"
    by (simp_all add: validate_def Let_def split: if_splits)
  show "v = coerce_frame sch df" by (rule v)
  show in_df: "n \<in> set (fcols df)" if "n \<in> set ?names" for n
    using m that by (auto simp: filter_empty_conv)
  show "column_failures n col (column_cells v n) = []" if "(n, col) \<in> set (schema_columns sch)" for n col
  proof -
    from that have "n \<in> set ?names" by force
    then have "(n, col) \<in> set ?present"
      using that in_df by simp
    with c show ?thesis
      unfolding v by fastforce
  qed
  show "table_failures k chk v = []" if "(k, chk) \<in> set (enumerate 0 (schema_checks sch))" for k chk
    using w that unfolding v by fastforce
qed

lemma column_failures_Nil:
  assumes "column_failures n col cells = []"
  shows "list_all (kind_ok (dtype col)) cells"
    and "\<not> nullable col \<Longrightarrow> Null \<notin> set cells"
    and "\<And>chk c. chk \<in> set (checks col) \<Longrightarrow> c \<in> set cells \<Longrightarrow> c \<noteq> Null \<Longrightarrow> check_holds chk c"
proof -
  from assms show "list_all (kind_ok (dtype col)) cells"
    by (simp add: column_failures_def split: if_splits)
  show "Null \<notin> set cells" if "\<not> nullable col"
  proof
    assume "Null \<in> set cells"
    then obtain i where "i < length cells" "cells ! i = Null"
      by (auto simp: in_set_conv_nth)
    then have "(i, Null) \<in> set (enumerate 0 cells)"
      by (auto simp: in_set_enumerate_eq)
    with assms that show False
      by (auto simp: column_failures_def filter_empty_conv)
  qed
  show "check_holds chk c" if "chk \<in> set (checks col)" "c \<in> set cells" "c \<noteq> Null" for chk c
  proof (rule ccontr)
    assume n: "\<not> check_holds chk c"
    from that(2) obtain i where i: "i < length cells" "cells ! i = c"
      by (auto simp: in_set_conv_nth)
    from that(1) obtain k where k: "k < length (checks col)" "checks col ! k = chk"
      by (auto simp: in_set_conv_nth)
    from i have ic: "(i, c) \<in> set (enumerate 0 cells)"
      by (auto simp: in_set_enumerate_eq)
    from k have kc: "(k, chk) \<in> set (enumerate 0 (checks col))"
      by (auto simp: in_set_enumerate_eq)
    from assms have "concat (map (\<lambda>(k, chk).
                  map (\<lambda>(i, c). \<lparr>schema_context = ''Column'', fc_column = Some n,
                                  fc_check = check_name chk, check_number = Some k,
                                  fc_value = c, fc_index = Some i\<rparr>)
                    (filter (\<lambda>(i, c). c \<noteq> Null \<and> \<not> check_holds chk c) (enumerate 0 cells)))
               (enumerate 0 (checks col))) = []"
      by (simp add: column_failures_def)
    with kc have "filter (\<lambda>(i, c). c \<noteq> Null \<and> \<not> check_holds chk c) (enumerate 0 cells) = []"
      by fastforce
    with ic n that(3) show False
      by (auto simp: filter_empty_conv)
  qed
qed

lemma kind_ok_cases:
  "kind_ok DateTime c \<Longrightarrow> c \<noteq> Null \<Longrightarrow> \<exists>t. c = Time t"
  "kind_ok Text c \<Longrightarrow> c \<noteq> Null \<Longrightarrow> \<exists>s. c = Str s"
  "kind_ok Float c \<Longrightarrow> c \<noteq> Null \<Longrightarrow> \<exists>x. c = Num x"
  by (cases c; simp)+

lemma series_max_ge: "series_max xs = Some m \<Longrightarrow> x \<in> set xs \<Longrightarrow> x \<le> m"
proof (cases xs)
  case Nil
  then show "series_max xs = Some m \<Longrightarrow> x \<in> set xs \<Longrightarrow> x \<le> m" by simp
next
  case (Cons y ys)
  have "a \<le> fold max zs a \<and> (\<forall>z \<in> set zs. z \<le> fold max zs a)" for zs and a :: 'a
  proof (induction zs arbitrary: a)
    case Nil
    show ?case by simp
  next
    case (Cons z zs)
    from Cons [of "max z a"] show ?case
      by (auto simp: max_def split: if_splits)
  qed
  with Cons show "series_max xs = Some m \<Longrightarrow> x \<in> set xs \<Longrightarrow> x \<le> m"
    by auto
qed

lemma distinct_count_le_one:
  assumes "\<And>k. k \<in> set ks \<Longrightarrow> length (filter (\<lambda>x. x = k) ks) \<le> 1"
  shows "distinct ks"
  using assms
proof (induction ks)
  case Nil
  show ?case by simp
next
  case (Cons a ks)
  have "a \<notin> set ks"
  proof
    assume "a \<in> set ks"
    then have "filter (\<lambda>x. x = a) ks \<noteq> []"
      by (auto simp: filter_empty_conv)
    then have "0 < length (filter (\<lambda>x. x = a) ks)"
      by simp
    with Cons.prems [of a] show False
      by simp
  qed
  moreover have "distinct ks"
  proof (rule Cons.IH)
    fix k assume "k \<in> set ks"
    with Cons.prems [of k] show "length (filter (\<lambda>x. x = k) ks) \<le> 1"
      by (auto split: if_splits)
  qed
  ultimately show ?case by simp
qed

lemma dup_check_distinct:
  assumes "check_fn (dup_check keys label) df = Inr True"
  shows "distinct (filter (list_all (\<lambda>c. c \<noteq> Null))
                     (map (\<lambda>r. map (row_get (fcols df) r) keys) (frows df)))"
proof -
  let ?ks = "filter (list_all (\<lambda>c. c \<noteq> Null)) (map (\<lambda>r. map (row_get (fcols df) r) keys) (frows df))"
  from assms have m: "series_max (map (\<lambda>k. length (filter (\<lambda>x. x = k) ?ks)) (drop_duplicates ?ks)) = Some 1"
    by (auto simp: dup_check_def groupby_size_def Let_def split: if_splits sum.splits)
  show ?thesis
  proof (rule distinct_count_le_one)
    fix k assume "k \<in> set ?ks"
    then have "length (filter (\<lambda>x. x = k) ?ks) \<in>
                 set (map (\<lambda>k. length (filter (\<lambda>x. x = k) ?ks)) (drop_duplicates ?ks))"
      by (simp only: set_map set_drop_duplicates) (rule imageI)
    from series_max_ge [OF m this] show "length (filter (\<lambda>x. x = k) ?ks) \<le> 1" .
  qed
qed

subsection \<open>The FX schema and the lookup keys\<close>

text \<open>
  The uniqueness that \<^verbatim>\<open>add_fx_amount_base\<close> needs of its lookup comes from the
  duplicate-key check of the FX schema: a validated FX frame whose dates carry no time of
  day gives, through \<^verbatim>\<open>fx_to_base\<close>, a lookup with distinct (date, from_currency) keys.
\<close>

lemma fcols_coerce_frame: "fcols (coerce_frame sch df) = fcols df"
  by (simp add: coerce_frame_def)

lemma fx_schema_unique_keys:
  assumes ok: "validate (fx_schema ac b) df = Inr v"
      and days: "list_all (\<lambda>f. snd (fx_date f) = 0) (fx_rows v)"
  shows "distinct (map fx_key (fx_to_base (fx_rows v) b))"
proof -
  let ?sch = "fx_schema ac b"
  let ?keys = "[''date'', ''from_currency'', ''to_currency'']"
  let ?kc = "\<lambda>r. map (row_get (fcols v) r) ?keys"
  have cols: "(''date'', \<lparr>dtype = DateTime, checks = [], coerce = True, nullable = False\<rparr>)
                \<in> set (schema_columns ?sch)"
             "(''from_currency'', \<lparr>dtype = Text, checks = [IsIn ac], coerce = False,
                               nullable = False\<rparr>) \<in> set (schema_columns ?sch)"
             "(''to_currency'', \<lparr>dtype = Text, checks = [IsIn [b]], coerce = False,
                             nullable = False\<rparr>) \<in> set (schema_columns ?sch)"
    by (simp_all add: fx_schema_def)
  have cell: "kind_ok (dtype col) (row_get (fcols v) r n) \<and> row_get (fcols v) r n \<noteq> Null"
    if "(n, col) \<in> set (schema_columns ?sch)" "\<not> nullable col" "r \<in> set (frows v)" for n col r
  proof -
    have in_col: "row_get (fcols v) r n \<in> set (column_cells v n)"
      using that(3) by (simp add: column_cells_def)
    from column_failures_Nil(1) [OF validate_Inr(3) [OF ok that(1)]] in_col
    have "kind_ok (dtype col) (row_get (fcols v) r n)"
      by (simp add: list_all_iff)
    moreover from column_failures_Nil(2) [OF validate_Inr(3) [OF ok that(1)] that(2)] in_col
    have "row_get (fcols v) r n \<noteq> Null"
      by metis
    ultimately show ?thesis ..
  qed
  have shape: "\<exists>t f. ?kc r = [Time t, Str f, Str b] \<and> snd t = 0"
    if r: "r \<in> set (frows v)" and to: "text_of (row_get (fcols v) r ''to_currency'') = b" for r
  proof -
    from cell [OF cols(1) _ r] obtain t where t: "row_get (fcols v) r ''date'' = Time t"
      using kind_ok_cases(1) by fastforce
    from cell [OF cols(2) _ r] obtain f where f: "row_get (fcols v) r ''from_currency'' = Str f"
      using kind_ok_cases(2) by fastforce
    from cell [OF cols(3) _ r] obtain c where c: "row_get (fcols v) r ''to_currency'' = Str c"
      using kind_ok_cases(2) by fastforce
    from days r t have "snd t = 0"
      by (auto simp: fx_rows_def list_all_iff)
    with t f c to show ?thesis
      by simp
  qed
  have "(0, dup_check ?keys ''fx_rates'') \<in> set (enumerate 0 (schema_checks ?sch))"
    by (simp add: fx_schema_def)
  from validate_Inr(4) [OF ok this]
  have "check_fn (dup_check ?keys ''fx_rates'') v = Inr True"
    by (auto simp: table_failures_def split: sum.splits bool.splits)
  from dup_check_distinct [OF this]
  have d: "distinct (filter (list_all (\<lambda>c. c \<noteq> Null)) (map ?kc (frows v)))" .
  have "filter (list_all (\<lambda>c. c \<noteq> Null)) (map ?kc (frows v)) = map ?kc (frows v)"
  proof (rule filter_True, rule ballI)
    fix k assume "k \<in> set (map ?kc (frows v))"
    then obtain r where r: "r \<in> set (frows v)" and k: "k = ?kc r"
      by auto
    from cell [OF cols(1) _ r] cell [OF cols(2) _ r] cell [OF cols(3) _ r]
    show "list_all (\<lambda>c. c \<noteq> Null) k"
      by (simp add: k)
  qed
  with d have dk: "distinct (map ?kc (frows v))"
    by simp
  let ?P = "\<lambda>r. text_of (row_get (fcols v) r ''to_currency'') = b"
  let ?g = "\<lambda>r. (fst (time_of (row_get (fcols v) r ''date'')),
                  text_of (row_get (fcols v) r ''from_currency''))"
  have eq: "map fx_key (fx_to_base (fx_rows v) b) = map ?g (filter ?P (frows v))"
    by (simp add: fx_to_base_def fx_rows_def filter_map comp_def fx_key_def dt_date_def)
  have "distinct (map ?g (filter ?P (frows v)))"
  proof (rule distinct_map [THEN iffD2], rule conjI)
    from dk show "distinct (filter ?P (frows v))"
      by (simp add: distinct_map)
    show "inj_on ?g (set (filter ?P (frows v)))"
    proof (rule inj_onI)
      fix r1 r2
      assume r1: "r1 \<in> set (filter ?P (frows v))" and r2: "r2 \<in> set (filter ?P (frows v))"
        and g: "?g r1 = ?g r2"
      from r1 shape obtain t1 f1 where k1: "?kc r1 = [Time t1, Str f1, Str b]" "snd t1 = 0"
        by fastforce
      from r2 shape obtain t2 f2 where k2: "?kc r2 = [Time t2, Str f2, Str b]" "snd t2 = 0"
        by fastforce
      from g k1 k2 have "?kc r1 = ?kc r2"
        by (auto simp: prod_eq_iff)
      moreover from dk have "inj_on ?kc (set (frows v))"
        by (simp add: distinct_map)
      ultimately show "r1 = r2"
        using r1 r2 by (auto dest: inj_onD)
    qed
  qed
  with eq show ?thesis
    by simp
qed

text \<open>
  The schema compares timestamps and the lookup calendar days: two rates of one currency
  at different times of the same day pass the check and share a lookup key.
\<close>

lemma fx_schema_intraday_rates:
  "validate (fx_schema [''USD'', ''TZS'', ''EUR''] ''USD'') intraday_fx = Inr intraday_fx \<and>
   map fx_key (fx_to_base (fx_rows intraday_fx) ''USD'') =
     [((2025, 12, 5), ''EUR''), ((2025, 12, 5), ''EUR'')]"
  by (simp add: validate_defs fx_schema_def dup_check_def groupby_size_def intraday_fx_def
        fx_rows_def fx_to_base_def fx_key_def dt_date_def)

subsection \<open>Validation of the example files\<close>


lemma validate_sales_dup:
  "validate (sales_schema [''USD'', ''TZS'', ''EUR''])
     (sales_frame [sale_cells (Str ''TLM'') ''INV-0001'', sale_cells (Str ''TLM'') ''INV-0001'']) =
     Inl [table_failure (dup_check [''entity'', ''invoice_id''] ''sales'')]"
  by (simp add: validate_defs sales_schema_def dup_check_def groupby_size_def sales_frame_def
        sale_cells_def)

lemma validate_sales_null_entity:
  "validate (sales_schema [''USD'', ''TZS'', ''EUR''])
     (sales_frame [sale_cells (Str ''TLM'') ''INV-0001'', sale_cells Null ''INV-0002'']) =
     Inl [\<lparr>schema_context = ''Column'', fc_column = Some ''entity'', fc_check = ''not_nullable'',
           check_number = None, fc_value = Null, fc_index = Some 1\<rparr>]"
  by (simp add: validate_defs sales_schema_def dup_check_def groupby_size_def sales_frame_def
        sale_cells_def)

lemma validate_expenses_one:
  "validate (expenses_schema [''USD'', ''TZS'', ''EUR'']) expenses_frame = Inr expenses_frame"
  by (simp add: validate_defs expenses_schema_def dup_check_def groupby_size_def expenses_frame_def)

lemma validate_payroll_one:
  "validate (payroll_schema [''USD'', ''TZS'', ''EUR'']) payroll_frame = Inr payroll_frame"
  by (simp add: validate_defs payroll_schema_def payroll_identity_def identity_gap_def payroll_frame_def)

lemma validate_fx_one:
  "validate (fx_schema [''USD'', ''TZS'', ''EUR''] ''USD'') fx_frame = Inr fx_frame"
  by (simp add: validate_defs fx_schema_def dup_check_def groupby_size_def fx_frame_def)

lemma validate_inventory_none:
  "validate (inventory_schema [''USD'', ''TZS'', ''EUR''])
     (empty_frame (inventory_schema [''USD'', ''TZS'', ''EUR''])) =
   Inr (empty_frame (inventory_schema [''USD'', ''TZS'', ''EUR'']))"
  by (simp add: validate_defs inventory_schema_def)

subsection \<open>Severity tags\<close>

lemma severity_tag_iff:
  assumes "i < length dq"
  shows "severity (tag_severity dq ! i) = ''ERROR'' \<longleftrightarrow>
           str_contains critical_checks (fc_check (dq ! i))"
    and "severity (tag_severity dq ! i) = ''WARN'' \<longleftrightarrow>
           \<not> str_contains critical_checks (fc_check (dq ! i))"
  using assms
  by (simp_all add: tag_severity_def severity_of_def dq_exception.extend_def dq_tagged.fields_def)

lemma load_month_inputs:
  "load_inputs (month_inputs sales) =
     Inr (chart, sales, expenses_frame, payroll_frame,
          empty_frame (inventory_schema [''USD'', ''TZS'', ''EUR'']), fx_frame)"
  by (simp add: load_inputs_def read_csv_def month_inputs_def)

lemma validate_raw_month_inputs:
  "validate_raw default_settings sales expenses_frame payroll_frame
     (empty_frame (inventory_schema [''USD'', ''TZS'', ''EUR''])) fx_frame =
   (case validate (sales_schema [''USD'', ''TZS'', ''EUR'']) sales of
      Inr v \<Rightarrow> \<lparr>v_sales = Some v, v_exp = Some expenses_frame, v_pay = Some payroll_frame,
                 v_inv = Some (empty_frame (inventory_schema [''USD'', ''TZS'', ''EUR''])),
                 v_fx = Some fx_frame, issues = []\<rparr>
    | Inl fc \<Rightarrow> \<lparr>v_sales = None, v_exp = Some expenses_frame, v_pay = Some payroll_frame,
                 v_inv = Some (empty_frame (inventory_schema [''USD'', ''TZS'', ''EUR''])),
                 v_fx = Some fx_frame,
                 issues = [map (\<lambda>f. failure_case.extend f (dq_exception.fields ''sales'')) fc]\<rparr>)"
  by (simp add: validate_raw_def validate_or_collect_def default_settings_def
        validate_expenses_one validate_payroll_one validate_fx_one validate_inventory_none
        split: sum.splits)

lemma severity_of_not_nullable: "severity_of ''not_nullable'' = ''WARN''"
  by code_simp

lemma severity_of_duplicates:
  "severity_of (error_text (dup_check [''entity'', ''invoice_id''] ''sales'')) = ''ERROR''"
  by code_simp

text \<open>
  C6 at a failing input. The second line of \<^verbatim>\<open>sales.csv\<close> has no entity, a required
  (non-nullable) value. Validation reports it under the label \<^verbatim>\<open>not_nullable\<close>, in which
  none of the four critical patterns occurs, so the exception is tagged WARN and not
  ERROR.
\<close>

theorem missing_required_value_tagged_warn:
  "map (\<lambda>x. (dataset x, fc_column x, fc_index x, fc_check x, severity x))
     (tag_severity (concat (issues
        (validate_raw default_settings null_entity_sales expenses_frame payroll_frame
           (empty_frame (inventory_schema [''USD'', ''TZS'', ''EUR''])) fx_frame)))) =
   [(''sales'', Some ''entity'', Some 1, ''not_nullable'', ''WARN'')]"
  by (simp add: validate_raw_month_inputs null_entity_sales_def validate_sales_null_entity
        tag_severity_def severity_of_not_nullable failure_case.extend_def
        dq_exception.extend_def dq_exception.fields_def dq_tagged.fields_def)

subsection \<open>The monthly run\<close>

lemma validate_or_collect_cases:
  "validate_or_collect df sch n is = (Some v, is') \<Longrightarrow> is' = is"
  "validate_or_collect df sch n is = (None, is') \<Longrightarrow> is' \<noteq> []"
  by (auto simp: validate_or_collect_def split: sum.splits)

lemma validate_raw_issues:
  assumes "issues (validate_raw st sales expenses payroll inventory fx_rates) \<noteq> []"
  shows "v_sales (validate_raw st sales expenses payroll inventory fx_rates) = None \<or>
         v_exp (validate_raw st sales expenses payroll inventory fx_rates) = None \<or>
         v_inv (validate_raw st sales expenses payroll inventory fx_rates) = None \<or>
         v_pay (validate_raw st sales expenses payroll inventory fx_rates) = None \<or>
         v_fx (validate_raw st sales expenses payroll inventory fx_rates) = None"
proof -
  obtain vs i1 where a: "validate_or_collect sales (sales_schema (allowed_currencies st)) ''sales'' [] = (vs, i1)"
    by (cases "validate_or_collect sales (sales_schema (allowed_currencies st)) ''sales'' []")
  obtain ve i2 where b: "validate_or_collect expenses (expenses_schema (allowed_currencies st)) ''expenses'' i1 = (ve, i2)"
    by (cases "validate_or_collect expenses (expenses_schema (allowed_currencies st)) ''expenses'' i1")
  obtain vp i3 where c: "validate_or_collect payroll (payroll_schema (allowed_currencies st)) ''payroll'' i2 = (vp, i3)"
    by (cases "validate_or_collect payroll (payroll_schema (allowed_currencies st)) ''payroll'' i2")
  obtain vi i4 where d: "validate_or_collect inventory (inventory_schema (allowed_currencies st)) ''inventory_movements'' i3 = (vi, i4)"
    by (cases "validate_or_collect inventory (inventory_schema (allowed_currencies st)) ''inventory_movements'' i3")
  obtain vf i5 where e: "validate_or_collect fx_rates (fx_schema (allowed_currencies st) (base_currency st)) ''fx_rates'' i4 = (vf, i5)"
    by (cases "validate_or_collect fx_rates (fx_schema (allowed_currencies st) (base_currency st)) ''fx_rates'' i4")
  have v: "validate_raw st sales expenses payroll inventory fx_rates =
           \<lparr>v_sales = vs, v_exp = ve, v_pay = vp, v_inv = vi, v_fx = vf, issues = i5\<rparr>"
    by (simp add: validate_raw_def a b c d e)
  show ?thesis
  proof (rule ccontr)
    assume "\<not> ?thesis"
    with v obtain s1 s2 s3 s4 s5 where
      "vs = Some s1" "ve = Some s2" "vp = Some s3" "vi = Some s4" "vf = Some s5"
      by auto
    note s = this
    from a s(1) have "i1 = []"
      by (simp add: validate_or_collect_cases(1))
    moreover from b s(2) have "i2 = i1"
      by (simp add: validate_or_collect_cases(1))
    moreover from c s(3) have "i3 = i2"
      by (simp add: validate_or_collect_cases(1))
    moreover from d s(4) have "i4 = i3"
      by (simp add: validate_or_collect_cases(1))
    moreover from e s(5) have "i5 = i4"
      by (simp add: validate_or_collect_cases(1))
    ultimately have "i5 = []"
      by simp
    with assms v show False by simp
  qed
qed

lemma curate_None:
  assumes "v_sales v = None \<or> v_exp v = None \<or> v_inv v = None \<or> v_pay v = None \<or> v_fx v = None"
  shows "\<exists>e. curate st m dims v written = (written, Inl e)"
  using assms
  by (auto simp: curate_def split: sum.splits option.splits prod.splits)

lemma month_window_2025_12:
  "month_window ''2025-12'' = Inr (((2025, 12, 1), 0), ((2026, 1, 1), 0))"
  by (simp add: month_window_def to_datetime_2025_12 month_begin_def)

lemma issues_dup_sales:
  "validate_raw default_settings dup_sales expenses_frame payroll_frame
     (empty_frame (inventory_schema [''USD'', ''TZS'', ''EUR''])) fx_frame =
   \<lparr>v_sales = None, v_exp = Some expenses_frame, v_pay = Some payroll_frame,
                 v_inv = Some (empty_frame (inventory_schema [''USD'', ''TZS'', ''EUR''])),
                 v_fx = Some fx_frame,
                 issues = [[failure_case.extend (table_failure (dup_check [''entity'', ''invoice_id''] ''sales''))
                               (dq_exception.fields ''sales'')]]\<rparr>"
  by (simp add: validate_raw_month_inputs dup_sales_def validate_sales_dup)

lemma tagged_dup_sales:
  "tag_severity [failure_case.extend (table_failure (dup_check [''entity'', ''invoice_id''] ''sales''))
                               (dq_exception.fields ''sales'')] = [dup_exception]"
  by (simp add: tag_severity_def severity_of_duplicates dup_exception_def table_failure_def
        failure_case.extend_def dq_exception.extend_def dq_exception.fields_def dq_tagged.fields_def)

lemma summary_dup_sales: "dq_summary [dup_exception] = [(''sales'', ''ERROR'', 1)]"
  by (simp add: dq_summary_def group_keys_def sort_key_def dup_exception_def)

lemma fail_on_normalised:
  "strip (upper ''NEVER'') = ''NEVER''" "strip (upper '' error '') = ''ERROR''"
  "strip (upper ''bogus'') = ''BOGUS''"
  by code_simp+

lemma run_month_dup_never:
  "run_month default_settings ''2025-12'' (month_inputs dup_sales) ''NEVER'' =
     ([DqExceptions [dup_exception], DqSummary (IssueCounts [(''sales'', ''ERROR'', 1)])],
      Inl NoneTypeError)"
  by (simp add: run_month_def load_month_inputs issues_dup_sales tagged_dup_sales
        summary_dup_sales curate_def month_window_2025_12 fail_on_normalised)

lemma severity_dup_exception: "severity dup_exception = ''ERROR''"
  by (simp add: dup_exception_def)


lemma run_month_dup_error:
  "run_month default_settings ''2025-12'' (month_inputs dup_sales) '' error '' =
     ([DqExceptions [dup_exception], DqSummary (IssueCounts [(''sales'', ''ERROR'', 1)])],
      Inl (DQFailed ''ERROR''))"
  by (simp add: run_month_def load_month_inputs issues_dup_sales tagged_dup_sales
        summary_dup_sales fail_on_normalised severity_dup_exception)

lemma run_month_dup_bogus:
  "run_month default_settings ''2025-12'' (month_inputs dup_sales) ''bogus'' =
     ([DqExceptions [dup_exception], DqSummary (IssueCounts [(''sales'', ''ERROR'', 1)])],
      Inl ConfigValueError)"
  by (simp add: run_month_def load_month_inputs issues_dup_sales tagged_dup_sales
        summary_dup_sales fail_on_normalised)






text \<open>
  C3. When the inputs load, validation produces at least one issue and the threshold is
  met (\<open>fail_on\<close> is WARN, or it is ERROR and some issue is tagged ERROR), \<open>run_month\<close>
  raises the data-quality error, and the artifacts written by then are exactly the DQ
  exceptions and the DQ summary: no ledger, account dimension or KPI file.
\<close>

theorem dq_threshold_aborts:
  assumes "load_inputs inp = Inr (coa, sales, expenses, payroll, inventory, fx_rates)"
      and "issues (validate_raw st sales expenses payroll inventory fx_rates) \<noteq> []"
      and "strip (upper fail_on) = ''WARN'' \<or>
           strip (upper fail_on) = ''ERROR'' \<and>
           list_ex (\<lambda>x. severity x = ''ERROR'')
             (tag_severity (concat (issues (validate_raw st sales expenses payroll inventory fx_rates))))"
  shows "\<exists>msg. run_month st m inp fail_on =
           ([DqExceptions (tag_severity (concat (issues
                (validate_raw st sales expenses payroll inventory fx_rates)))),
             DqSummary (IssueCounts (dq_summary (tag_severity (concat (issues
                (validate_raw st sales expenses payroll inventory fx_rates))))))],
            Inl (DQFailed msg))"
  using assms by (auto simp: run_month_def Let_def)


theorem dq_threshold_aborts_witness:
  "load_inputs (month_inputs dup_sales) =
     Inr (chart, dup_sales, expenses_frame, payroll_frame,
          empty_frame (inventory_schema [''USD'', ''TZS'', ''EUR'']), fx_frame) \<and>
   issues (validate_raw default_settings dup_sales expenses_frame payroll_frame
             (empty_frame (inventory_schema [''USD'', ''TZS'', ''EUR''])) fx_frame) \<noteq> [] \<and>
   strip (upper '' error '') = ''ERROR'' \<and>
   list_ex (\<lambda>x. severity x = ''ERROR'')
     (tag_severity (concat (issues
        (validate_raw default_settings dup_sales expenses_frame payroll_frame
           (empty_frame (inventory_schema [''USD'', ''TZS'', ''EUR''])) fx_frame)))) \<and>
   (\<exists>msg. run_month default_settings ''2025-12'' (month_inputs dup_sales) '' error '' =
      ([DqExceptions [dup_exception], DqSummary (IssueCounts [(''sales'', ''ERROR'', 1)])],
       Inl (DQFailed msg)))"
proof -
  let ?v = "validate_raw default_settings dup_sales expenses_frame payroll_frame
             (empty_frame (inventory_schema [''USD'', ''TZS'', ''EUR''])) fx_frame"
  have l: "load_inputs (month_inputs dup_sales) =
     Inr (chart, dup_sales, expenses_frame, payroll_frame,
          empty_frame (inventory_schema [''USD'', ''TZS'', ''EUR'']), fx_frame)"
    by (rule load_month_inputs)
  have i: "issues ?v \<noteq> []"
    by (simp add: issues_dup_sales)
  have t: "tag_severity (concat (issues ?v)) = [dup_exception]"
    by (simp add: issues_dup_sales tagged_dup_sales)
  have n: "strip (upper '' error '') = ''ERROR''"
    by (rule fail_on_normalised)
  have e: "list_ex (\<lambda>x. severity x = ''ERROR'') (tag_severity (concat (issues ?v)))"
    by (simp add: t severity_dup_exception)
  from n e have thr: "strip (upper '' error '') = ''WARN'' \<or>
           strip (upper '' error '') = ''ERROR'' \<and>
           list_ex (\<lambda>x. severity x = ''ERROR'') (tag_severity (concat (issues ?v)))"
    by simp
  from dq_threshold_aborts [OF l i thr, of "''2025-12''"]
  have "\<exists>msg. run_month default_settings ''2025-12'' (month_inputs dup_sales) '' error '' =
      ([DqExceptions [dup_exception], DqSummary (IssueCounts [(''sales'', ''ERROR'', 1)])],
       Inl (DQFailed msg))"
    by (simp add: t summary_dup_sales)
  with l i n e show ?thesis
    by blast
qed

text \<open>
  C1 on the code. When the inputs load and validation produces at least one issue, no
  value of \<open>fail_on\<close>, NEVER included, lets the run complete: a batch with a violation is
  handed on as \<open>None\<close>, and the month filter (or the FX resolver) raises on it. The run
  ends in an error with only the two DQ artifacts written.
\<close>

theorem run_month_issues_never_complete:
  assumes "load_inputs inp = Inr (coa, sales, expenses, payroll, inventory, fx_rates)"
      and "issues (validate_raw st sales expenses payroll inventory fx_rates) \<noteq> []"
  shows "\<exists>e. run_month st m inp fail_on =
           ([DqExceptions (tag_severity (concat (issues
                (validate_raw st sales expenses payroll inventory fx_rates)))),
             DqSummary (IssueCounts (dq_summary (tag_severity (concat (issues
                (validate_raw st sales expenses payroll inventory fx_rates))))))],
            Inl e)"
proof -
  let ?v = "validate_raw st sales expenses payroll inventory fx_rates"
  let ?w = "[DqExceptions (tag_severity (concat (issues ?v))),
             DqSummary (IssueCounts (dq_summary (tag_severity (concat (issues ?v)))))]"
  from curate_None [OF validate_raw_issues [OF assms(2)]]
  obtain e where "curate st m (build_dim_accounts coa) ?v ?w = (?w, Inl e)"
    by blast
  with assms show ?thesis
    by (auto simp: run_month_def Let_def)
qed


theorem run_month_issues_never_complete_witness:
  "load_inputs (month_inputs dup_sales) =
     Inr (chart, dup_sales, expenses_frame, payroll_frame,
          empty_frame (inventory_schema [''USD'', ''TZS'', ''EUR'']), fx_frame) \<and>
   issues (validate_raw default_settings dup_sales expenses_frame payroll_frame
             (empty_frame (inventory_schema [''USD'', ''TZS'', ''EUR''])) fx_frame) \<noteq> [] \<and>
   (\<exists>e. run_month default_settings ''2025-12'' (month_inputs dup_sales) ''NEVER'' =
      ([DqExceptions [dup_exception], DqSummary (IssueCounts [(''sales'', ''ERROR'', 1)])],
       Inl e)) \<and>
   run_month default_settings ''2025-12'' (month_inputs dup_sales) ''NEVER'' =
     ([DqExceptions [dup_exception], DqSummary (IssueCounts [(''sales'', ''ERROR'', 1)])],
      Inl NoneTypeError)"
proof -
  let ?v = "validate_raw default_settings dup_sales expenses_frame payroll_frame
             (empty_frame (inventory_schema [''USD'', ''TZS'', ''EUR''])) fx_frame"
  have l: "load_inputs (month_inputs dup_sales) =
     Inr (chart, dup_sales, expenses_frame, payroll_frame,
          empty_frame (inventory_schema [''USD'', ''TZS'', ''EUR'']), fx_frame)"
    by (rule load_month_inputs)
  have i: "issues ?v \<noteq> []"
    by (simp add: issues_dup_sales)
  have t: "tag_severity (concat (issues ?v)) = [dup_exception]"
    by (simp add: issues_dup_sales tagged_dup_sales)
  from run_month_issues_never_complete [OF l i, of "''2025-12''" "''NEVER''"]
  have "\<exists>e. run_month default_settings ''2025-12'' (month_inputs dup_sales) ''NEVER'' =
      ([DqExceptions [dup_exception], DqSummary (IssueCounts [(''sales'', ''ERROR'', 1)])],
       Inl e)"
    by (simp add: t summary_dup_sales)
  with l i run_month_dup_never show ?thesis
    by blast
qed





end
